theory Spec2Isabelle
  imports Main "HOL-Library.Word" "HOL-Library.AList" "HOL-Library.Sublist"
begin

section \<open>Route handle construction: \<^verbatim>\<open>mcrouter/routes/McRouteHandleProvider-inl.h\<close>\<close>

text \<open>
  A shallow embedding of \<^verbatim>\<open>McRouteHandleProvider<RouterInfo>\<close>: the pool resolver
  \<^verbatim>\<open>makePool\<close>, the destination factory \<^verbatim>\<open>createDestinationRoute\<close>, the pool route
  composer \<^verbatim>\<open>makePoolRoute\<close> with \<^verbatim>\<open>createAsynclogRoute\<close>, the checked route map
  \<^verbatim>\<open>buildCheckedRouteMap\<close> and the dispatcher \<^verbatim>\<open>create\<close>.

  The member maps of the provider and the mutable objects reached through \<^verbatim>\<open>proxy_\<close>
  are an explicit state that every operation takes and returns. A C++ exception is
  the result \<open>Inl e\<close>; the state that comes with it is the state at the \<^verbatim>\<open>throw\<close>,
  since nothing is rolled back. The functions and constants that the file uses but does not
  define (parsing helpers, the access point parser, the route handle constructors of
  other files, the options) are the fields of the record \<open>externals\<close>: every
  theorem holds for all of them.
\<close>

subsection \<open>\<^verbatim>\<open>folly::dynamic\<close>\<close>

text \<open>
  The seven kinds of a \<^verbatim>\<open>folly::dynamic\<close>. A double carries its 64 bits. An object
  is an association list with string keys; the first entry of a key is the one a
  lookup sees, and \<^verbatim>\<open>insert\<close>, \<^verbatim>\<open>operator[]=\<close> and \<^verbatim>\<open>erase\<close> are \<open>AList.update\<close> and
  \<open>AList.delete\<close>.
\<close>

datatype dynamic =
    DNull
  | DBool bool
  | DInt int
  | DDouble "64 word"
  | DString string
  | DArray "dynamic list"
  | DObject "(string \<times> dynamic) list"

text \<open>
  Failures. The first three are C++ exceptions (\<^verbatim>\<open>std::logic_error\<close> from
  \<^verbatim>\<open>checkLogic\<close>/\<^verbatim>\<open>throwLogic\<close>, \<^verbatim>\<open>folly::TypeError\<close> from an access of the wrong kind,
  any other \<^verbatim>\<open>std::exception\<close> of a collaborator), each with its \<^verbatim>\<open>what()\<close> text.
  \<open>NullDeref\<close> is the dereference of a null pointer: undefined behaviour, not an
  exception, so that no \<^verbatim>\<open>catch\<close> sees it.
\<close>

datatype error =
    LogicError string
  | TypeError string
  | OtherException string
  | NullDeref

fun what :: "error \<Rightarrow> string" where
  "what (LogicError m) = m"
| "what (TypeError m) = m"
| "what (OtherException m) = m"
| "what NullDeref = []"

fun isString :: "dynamic \<Rightarrow> bool" where
  "isString (DString _) = True"
| "isString _ = False"

fun isObject :: "dynamic \<Rightarrow> bool" where
  "isObject (DObject _) = True"
| "isObject _ = False"

fun isArray :: "dynamic \<Rightarrow> bool" where
  "isArray (DArray _) = True"
| "isArray _ = False"

text \<open>\<^verbatim>\<open>stringPiece()\<close> / \<^verbatim>\<open>asString()\<close>, used by the source on strings only.\<close>

fun stringPiece :: "dynamic \<Rightarrow> string" where
  "stringPiece (DString s) = s"
| "stringPiece _ = []"

text \<open>\<^verbatim>\<open>size()\<close>, used by the source on arrays only.\<close>

fun dsize :: "dynamic \<Rightarrow> nat" where
  "dsize (DArray xs) = length xs"
| "dsize (DObject kvs) = length kvs"
| "dsize (DString s) = length s"
| "dsize _ = 0"

fun items :: "dynamic \<Rightarrow> (string \<times> dynamic) list" where
  "items (DObject kvs) = kvs"
| "items _ = []"

text \<open>
  \<^verbatim>\<open>get_ptr(key)\<close> with a string key: the member or null on an object; a
  \<^verbatim>\<open>TypeError\<close> on everything else (an array wants an integer index).
\<close>

fun get_ptr :: "dynamic \<Rightarrow> string \<Rightarrow> error + dynamic option" where
  "get_ptr (DObject kvs) k = Inr (map_of kvs k)"
| "get_ptr (DArray _) k = Inl (TypeError ''int64'')"
| "get_ptr _ k = Inl (TypeError ''object/array'')"

fun dinsert :: "string \<Rightarrow> dynamic \<Rightarrow> dynamic \<Rightarrow> dynamic" where
  "dinsert k v (DObject kvs) = DObject (AList.update k v kvs)"
| "dinsert k v d = d"

fun derase :: "string \<Rightarrow> dynamic \<Rightarrow> dynamic" where
  "derase k (DObject kvs) = DObject (AList.delete k kvs)"
| "derase k d = d"

subsection \<open>Exceptions and formatting\<close>

definition bindE :: "error + 'a \<Rightarrow> ('a \<Rightarrow> error + 'b) \<Rightarrow> error + 'b" where
  "bindE m f = (case m of Inl e \<Rightarrow> Inl e | Inr a \<Rightarrow> f a)"

definition checkLogic :: "bool \<Rightarrow> string \<Rightarrow> error + unit" where
  "checkLogic c msg = (if c then Inr () else Inl (LogicError msg))"

text \<open>
  \<^verbatim>\<open>if (auto j = json.get_ptr(k)) { x = parse(*j); }\<close> for a variable \<open>x\<close> that
  starts as \<open>dflt\<close>.
\<close>

definition optField ::
  "dynamic \<Rightarrow> string \<Rightarrow> 'a \<Rightarrow> (dynamic \<Rightarrow> error + 'a) \<Rightarrow> error + 'a" where
  "optField json k dflt parse =
     bindE (get_ptr json k) (\<lambda>p. case p of None \<Rightarrow> Inr dflt | Some j \<Rightarrow> parse j)"

text \<open>
  \<^verbatim>\<open>catch (const std::exception& e) { throwLogic(prefix + e.what()); }\<close>
\<close>

fun rethrowLogic :: "string \<Rightarrow> error \<Rightarrow> error" where
  "rethrowLogic pre NullDeref = NullDeref"
| "rethrowLogic pre e = LogicError (pre @ what e)"

definition digit :: "nat \<Rightarrow> char" where
  "digit n = ''0123456789'' ! n"

function show_nat :: "nat \<Rightarrow> string" where
  "show_nat n = (if n < 10 then [digit n] else show_nat (n div 10) @ [digit (n mod 10)])"
  by pat_completeness auto
termination
  by (relation "measure id") auto

declare show_nat.simps [simp del]

text \<open>\<^verbatim>\<open>equalStr(a, b, folly::AsciiCaseInsensitive())\<close>\<close>

definition asciiLower :: "char \<Rightarrow> char" where
  "asciiLower c =
     (case map_of (zip ''ABCDEFGHIJKLMNOPQRSTUVWXYZ'' ''abcdefghijklmnopqrstuvwxyz'') c of
        Some l \<Rightarrow> l
      | None \<Rightarrow> c)"

definition equalStr :: "string \<Rightarrow> string \<Rightarrow> bool" where
  "equalStr a b = (map asciiLower a = map asciiLower b)"

subsection \<open>Options, access points, state\<close>

datatype mc_protocol_t =
    mc_ascii_protocol
  | mc_caret_protocol
  | mc_thrift_protocol
  | mc_other_protocol nat

text \<open>
  \<^verbatim>\<open>SecurityMech\<close>: the three enumerators the source names, and \<open>OtherMech\<close> for
  the further ones of \<^verbatim>\<open>SecurityOptions.h\<close>.
\<close>

datatype SecurityMech = NONE | TLS | TLS_TO_PLAINTEXT | OtherMech nat

datatype Transport = ThriftTransport | AsyncMcClient

datatype Category = kInvalidConfig | kBadEnvironment

text \<open>The options read through \<^verbatim>\<open>proxy_.router().opts()\<close>.\<close>

record McrouterOptions =
  asynclog_disable :: bool
  server_timeout_ms :: int
  within_cluster_timeout_ms :: int
  cross_cluster_timeout_ms :: int
  cross_region_timeout_ms :: int
  default_route_region :: string
  default_route_cluster :: string
  enable_compression :: bool
  default_qos_class :: nat
  default_qos_path :: nat
  disable_shard_split_route :: bool

record AccessPoint =
  ap_host :: string
  ap_port :: nat
  ap_protocol :: mc_protocol_t
  ap_securityMech :: SecurityMech
  ap_compressed :: bool

text \<open>
  The provider's members \<^verbatim>\<open>pools_\<close>, \<^verbatim>\<open>asyncLogRoutes_\<close>, \<^verbatim>\<open>accessPoints_\<close> (maps
  keyed by string; the fields drop the trailing underscore, which a field name
  cannot end with here) and, in \<open>proxy\<close>, the mutable objects behind the \<^verbatim>\<open>proxy_\<close>
  reference (destination map, codec manager, failure log), of a type the provider
  does not look into. A \<^verbatim>\<open>RouteHandlePtr\<close> is an \<open>'rh option\<close>: \<open>None\<close> is
  \<^verbatim>\<open>nullptr\<close>.
\<close>

record ('rh, 'w) provider =
  pools :: "string \<rightharpoonup> 'rh option list"
  asyncLogRoutes :: "string \<rightharpoonup> 'rh option"
  accessPoints :: "string \<rightharpoonup> AccessPoint list"
  proxy :: 'w

text \<open>
  \<^verbatim>\<open>m.emplace(k, v)\<close> on a map with unique keys: inserts only where the key is
  absent. \<^verbatim>\<open>makePool\<close> reads \<^verbatim>\<open>.first->second\<close> of the result, the entry that is in
  the map afterwards.
\<close>

definition emplace :: "'k \<Rightarrow> 'v \<Rightarrow> ('k \<rightharpoonup> 'v) \<Rightarrow> ('k \<rightharpoonup> 'v)" where
  "emplace k v m = (case m k of Some _ \<Rightarrow> m | None \<Rightarrow> m(k \<mapsto> v))"

type_synonym ('a, 'rh, 'w) action =
  "('rh, 'w) provider \<Rightarrow> (error + 'a) \<times> ('rh, 'w) provider"

definition bindS ::
  "('a, 'rh, 'w) action \<Rightarrow> ('a \<Rightarrow> ('b, 'rh, 'w) action) \<Rightarrow> ('b, 'rh, 'w) action" where
  "bindS m f s = (case m s of (Inl e, s') \<Rightarrow> (Inl e, s') | (Inr a, s') \<Rightarrow> f a s')"

definition liftE :: "error + 'a \<Rightarrow> ('a, 'rh, 'w) action" where
  "liftE r s = (r, s)"

text \<open>A \<^verbatim>\<open>try\<close> block whose handler rethrows with a prefix.\<close>

definition catchLogic :: "string \<Rightarrow> ('a, 'rh, 'w) action \<Rightarrow> ('a, 'rh, 'w) action" where
  "catchLogic pre m s =
     (case m s of (Inl e, s') \<Rightarrow> (Inl (rethrowLogic pre e), s') | (Inr a, s') \<Rightarrow> (Inr a, s'))"

text \<open>\<^verbatim>\<open>RouteHandleFactory<RouteHandleIf>& factory\<close>: it calls back into the provider.\<close>

record ('rh, 'w) RouteHandleFactory =
  factory_create :: "dynamic \<Rightarrow> ('rh option, 'rh, 'w) action"
  getThreadId :: nat

record PoolJson =
  pj_name :: string
  pj_json :: dynamic

subsection \<open>What the file uses and does not define\<close>

text \<open>
  \<open>opts\<close> and \<open>enableSecurityConfig\<close> are read through \<^verbatim>\<open>proxy_.router()\<close>; the
  \<open>parse\<close> functions are those of \<^verbatim>\<open>ParsingUtil.h\<close>; \<open>getCodecManager\<close> says whether
  the codec manager is non-null. \<open>createRateLimitRoute route jrates\<close> stands for
  \<^verbatim>\<open>createRateLimitRoute(std::move(route), RateLimiter(*jrates))\<close> and
  \<open>makeShardSplitRoute route jsplits\<close> for
  \<^verbatim>\<open>makeShardSplitRoute<RouterInfo>(std::move(route), ShardSplitter(*jsplits))\<close>: the
  constructors of the argument may throw. The builders that receive the factory can
  call back into the provider, so they act on the state. \<open>buildRouteMap\<close> is the
  table of \<^verbatim>\<open>RouterInfo::buildRouteMap()\<close>; \<open>configMetadataLine\<close> is the lookup of the
  \<^verbatim>\<open>type\<close> node in \<^verbatim>\<open>poolFactory_.getConfigMetadataMap()\<close>, giving the 0-based line.
\<close>

record ('rh, 'pd, 'w) externals =
  opts :: McrouterOptions
  enableSecurityConfig :: bool
  parseTimeout :: "dynamic \<Rightarrow> string \<Rightarrow> error + int"
  parseString :: "dynamic \<Rightarrow> string \<Rightarrow> error + string"
  parseBool :: "dynamic \<Rightarrow> string \<Rightarrow> error + bool"
  parseInt :: "dynamic \<Rightarrow> string \<Rightarrow> int \<Rightarrow> int \<Rightarrow> error + int"
  parseSecurityMech :: "string \<Rightarrow> error + SecurityMech"
  securityMechToString :: "SecurityMech \<Rightarrow> string"
  AccessPoint_create ::
    "string \<Rightarrow> mc_protocol_t \<Rightarrow> SecurityMech \<Rightarrow> nat \<Rightarrow> bool \<Rightarrow> AccessPoint option"
  isInLocalDatacenter :: "string \<Rightarrow> bool"
  getStatsEnabledPoolIndex :: "string \<Rightarrow> int"
  getCodecManager :: "'w \<Rightarrow> bool"
  initCompression :: "'w \<Rightarrow> bool \<times> 'w"
  logFailure :: "Category \<Rightarrow> string \<Rightarrow> 'w \<Rightarrow> 'w"
  destinationMap_emplace ::
    "Transport \<Rightarrow> AccessPoint \<Rightarrow> int \<Rightarrow> nat \<Rightarrow> nat \<Rightarrow> 'w \<Rightarrow> 'pd \<times> 'w"
  updateShortestTimeout :: "'pd \<Rightarrow> int \<Rightarrow> int \<Rightarrow> 'w \<Rightarrow> 'w"
  makeDestinationRoute ::
    "Transport \<Rightarrow> 'pd \<Rightarrow> string \<Rightarrow> nat \<Rightarrow> int \<Rightarrow> int \<Rightarrow> bool \<Rightarrow> 'rh option"
  parsePool :: "dynamic \<Rightarrow> error + PoolJson"
  wrapPoolDestinations ::
    "('rh, 'w) RouteHandleFactory \<Rightarrow> 'rh option list \<Rightarrow> string \<Rightarrow> dynamic
       \<Rightarrow> ('rh option list, 'rh, 'w) action"
  WeightedCh3HashFunc_type :: string
  createHashRoute :: "dynamic \<Rightarrow> 'rh option list \<Rightarrow> nat \<Rightarrow> error + 'rh option"
  createRateLimitRoute :: "'rh option \<Rightarrow> dynamic \<Rightarrow> error + 'rh option"
  makeShardSplitRoute :: "'rh option \<Rightarrow> dynamic \<Rightarrow> error + 'rh option"
  makeAsynclogRoute :: "'rh option \<Rightarrow> string \<Rightarrow> 'rh option"
  makeFailoverRoute ::
    "('rh, 'w) RouteHandleFactory \<Rightarrow> dynamic \<Rightarrow> ('rh option, 'rh, 'w) action"
  makeShadowRoutes ::
    "('rh, 'w) RouteHandleFactory \<Rightarrow> dynamic \<Rightarrow> ('rh option list, 'rh, 'w) action"
  tryCreate ::
    "('rh, 'w) RouteHandleFactory \<Rightarrow> string \<Rightarrow> dynamic \<Rightarrow> ('rh option list, 'rh, 'w) action"
  buildRouteMap ::
    "(string \<times> (('rh, 'w) RouteHandleFactory \<Rightarrow> dynamic \<Rightarrow> ('rh option, 'rh, 'w) action)) list"
  configMetadataLine :: "dynamic option \<Rightarrow> nat option"

subsection \<open>\<^verbatim>\<open>createAsynclogRoute\<close> (lines 79 to 89)\<close>

definition createAsynclogRoute ::
  "('rh, 'pd, 'w) externals \<Rightarrow> 'rh option \<Rightarrow> string \<Rightarrow> ('rh option, 'rh, 'w) action" where
  "createAsynclogRoute ext target asynclogName s =
     (let target' = (if \<not> asynclog_disable (opts ext)
                     then makeAsynclogRoute ext target asynclogName else target)
      in (Inr target', s\<lparr>asyncLogRoutes := emplace asynclogName target' (asyncLogRoutes s)\<rparr>))"

subsection \<open>\<^verbatim>\<open>createDestinationRoute\<close> (lines 350 to 374)\<close>

definition createDestinationRoute ::
  "('rh, 'pd, 'w) externals \<Rightarrow> Transport \<Rightarrow> AccessPoint \<Rightarrow> int \<Rightarrow> int \<Rightarrow> nat \<Rightarrow> nat
     \<Rightarrow> string \<Rightarrow> nat \<Rightarrow> int \<Rightarrow> bool \<Rightarrow> ('rh option, 'rh, 'w) action" where
  "createDestinationRoute ext tr ap timeout connectTimeout qosClass qosPath poolName
       indexInPool poolStatIndex keepRoutingPrefix s =
     (let (pdstn, w1) = destinationMap_emplace ext tr ap timeout qosClass qosPath (proxy s);
          w2 = updateShortestTimeout ext pdstn connectTimeout timeout w1
      in (Inr (makeDestinationRoute ext tr pdstn poolName indexInPool poolStatIndex timeout
                 keepRoutingPrefix),
          s\<lparr>proxy := w2\<rparr>))"

subsection \<open>\<^verbatim>\<open>makePool\<close> (lines 91 to 348)\<close>

text \<open>
  Lines 105 to 127, once for \<^verbatim>\<open>region\<close> and once for \<^verbatim>\<open>cluster\<close>: a member that is
  not a string is logged and the variable stays empty. These lines come before the
  \<^verbatim>\<open>try\<close>.
\<close>

definition localityField ::
  "('rh, 'pd, 'w) externals \<Rightarrow> string \<Rightarrow> dynamic \<Rightarrow> string \<Rightarrow> string
     \<Rightarrow> (string, 'rh, 'w) action" where
  "localityField ext name json key label s =
     (case get_ptr json key of
        Inl e \<Rightarrow> (Inl e, s)
      | Inr None \<Rightarrow> (Inr [], s)
      | Inr (Some j) \<Rightarrow>
          if \<not> isString j
          then (Inr [],
                s\<lparr>proxy := logFailure ext kInvalidConfig
                     (''Pool '' @ name @ '': '' @ label @ '' is not a string'') (proxy s)\<rparr>)
          else (Inr (stringPiece j), s))"

text \<open>Lines 130 to 155: \<^verbatim>\<open>timeout\<close> and \<^verbatim>\<open>connectTimeout\<close>.\<close>

definition resolveTimeouts ::
  "('rh, 'pd, 'w) externals \<Rightarrow> dynamic \<Rightarrow> string \<Rightarrow> string \<Rightarrow> error + int \<times> int" where
  "resolveTimeouts ext json region cluster =
     bindE (optField json ''server_timeout'' (server_timeout_ms (opts ext))
              (\<lambda>j. parseTimeout ext j ''server_timeout'')) (\<lambda>timeout.
     bindE (optField json ''connect_timeout'' timeout
              (\<lambda>j. parseTimeout ext j ''connect_timeout'')) (\<lambda>connectTimeout.
     Inr (if region \<noteq> [] \<and> cluster \<noteq> [] then
            (if region = default_route_region (opts ext)
                \<and> cluster = default_route_cluster (opts ext) then
               (if within_cluster_timeout_ms (opts ext) \<noteq> 0
                then within_cluster_timeout_ms (opts ext) else timeout)
             else if region = default_route_region (opts ext) then
               (if cross_cluster_timeout_ms (opts ext) \<noteq> 0
                then cross_cluster_timeout_ms (opts ext) else timeout)
             else
               (if cross_region_timeout_ms (opts ext) \<noteq> 0
                then cross_region_timeout_ms (opts ext) else timeout))
          else timeout,
          connectTimeout)))"

text \<open>Lines 157 to 169.\<close>

definition resolveProtocol ::
  "('rh, 'pd, 'w) externals \<Rightarrow> dynamic \<Rightarrow> error + mc_protocol_t" where
  "resolveProtocol ext json =
     optField json ''protocol'' mc_ascii_protocol (\<lambda>j.
       bindE (parseString ext j ''protocol'') (\<lambda>str.
         if equalStr ''ascii'' str then Inr mc_ascii_protocol
         else if equalStr ''caret'' str then Inr mc_caret_protocol
         else if equalStr ''thrift'' str then Inr mc_thrift_protocol
         else Inl (LogicError (''Unknown protocol '' @ [CHR 0x27] @ str @ [CHR 0x27]))))"

text \<open>
  Lines 181 to 191. The result of \<^verbatim>\<open>parseInt\<close> is an \<^verbatim>\<open>int64_t\<close> stored in a
  \<^verbatim>\<open>uint32_t\<close>.
\<close>

definition resolveQos :: "('rh, 'pd, 'w) externals \<Rightarrow> dynamic \<Rightarrow> error + nat \<times> nat" where
  "resolveQos ext json =
     bindE (get_ptr json ''qos'') (\<lambda>p.
       case p of
         None \<Rightarrow> Inr (default_qos_class (opts ext), default_qos_path (opts ext))
       | Some jQos \<Rightarrow>
           bindE (checkLogic (isObject jQos) ''qos must be an object.'') (\<lambda>_.
           bindE (optField jQos ''class'' (default_qos_class (opts ext))
                    (\<lambda>j. bindE (parseInt ext j ''qos.class'' 0 4)
                           (\<lambda>n. Inr (nat (n mod 2 ^ 32))))) (\<lambda>qosClass.
           bindE (optField jQos ''path'' (default_qos_path (opts ext))
                    (\<lambda>j. bindE (parseInt ext j ''qos.path'' 0 3)
                           (\<lambda>n. Inr (nat (n mod 2 ^ 32))))) (\<lambda>qosPath.
           Inr (qosClass, qosPath)))))"

text \<open>
  Lines 193 to 233. The ports are \<^verbatim>\<open>uint16_t\<close>; port 0 does not override.
\<close>

record SecuritySettings =
  mech :: SecurityMech
  withinDcMech :: "SecurityMech option"
  crossDcMech :: "SecurityMech option"
  crossDcPort :: "nat option"
  withinDcPort :: "nat option"
  port :: nat

definition parseMechField ::
  "('rh, 'pd, 'w) externals \<Rightarrow> dynamic \<Rightarrow> string \<Rightarrow> error + SecurityMech" where
  "parseMechField ext j key = bindE (parseString ext j key) (parseSecurityMech ext)"

definition parsePortField ::
  "('rh, 'pd, 'w) externals \<Rightarrow> dynamic \<Rightarrow> string \<Rightarrow> error + nat" where
  "parsePortField ext j key =
     bindE (parseInt ext j key 1 65535) (\<lambda>n. Inr (nat (n mod 2 ^ 16)))"

definition resolveSecurity ::
  "('rh, 'pd, 'w) externals \<Rightarrow> dynamic \<Rightarrow> error + SecuritySettings" where
  "resolveSecurity ext json =
     (if enableSecurityConfig ext then
        bindE (get_ptr json ''security_mech'') (\<lambda>jSecurityMech.
        bindE (case jSecurityMech of
                 Some j \<Rightarrow> parseMechField ext j ''security_mech''
               | None \<Rightarrow>
                   optField json ''use_ssl'' NONE (\<lambda>j.
                     bindE (parseBool ext j ''use_ssl'') (\<lambda>useSsl.
                       Inr (if useSsl then TLS else NONE)))) (\<lambda>m.
        bindE (optField json ''security_mech_within_dc'' None (\<lambda>j.
                 bindE (parseMechField ext j ''security_mech_within_dc'')
                   (\<lambda>x. Inr (Some x)))) (\<lambda>wm.
        bindE (optField json ''security_mech_cross_dc'' None (\<lambda>j.
                 bindE (parseMechField ext j ''security_mech_cross_dc'')
                   (\<lambda>x. Inr (Some x)))) (\<lambda>cm.
        bindE (optField json ''port_override_within_dc'' None (\<lambda>j.
                 bindE (parsePortField ext j ''port_override_within_dc'')
                   (\<lambda>x. Inr (Some x)))) (\<lambda>wp.
        bindE (optField json ''port_override_cross_dc'' None (\<lambda>j.
                 bindE (parsePortField ext j ''port_override_cross_dc'')
                   (\<lambda>x. Inr (Some x)))) (\<lambda>cp.
        bindE (optField json ''port_override'' 0 (\<lambda>j.
                 parsePortField ext j ''port_override'')) (\<lambda>p.
        Inr \<lparr>mech = m, withinDcMech = wm, crossDcMech = cm, crossDcPort = cp,
             withinDcPort = wp, port = p\<rparr>)))))))
      else
        Inr \<lparr>mech = NONE, withinDcMech = None, crossDcMech = None, crossDcPort = None,
             withinDcPort = None, port = 0\<rparr>)"

text \<open>Everything the \<^verbatim>\<open>try\<close> block resolves before it looks at the servers (lines 130 to 233).\<close>

record PoolSettings =
  timeout :: int
  connectTimeout :: int
  protocol :: mc_protocol_t
  enableCompression :: bool
  keepRoutingPrefix :: bool
  qosClass :: nat
  qosPath :: nat
  security :: SecuritySettings

definition poolSettings ::
  "('rh, 'pd, 'w) externals \<Rightarrow> dynamic \<Rightarrow> string \<Rightarrow> string \<Rightarrow> error + PoolSettings" where
  "poolSettings ext json region cluster =
     bindE (resolveTimeouts ext json region cluster) (\<lambda>(t, ct).
     bindE (resolveProtocol ext json) (\<lambda>pr.
     bindE (optField json ''enable_compression'' (enable_compression (opts ext))
              (\<lambda>j. parseBool ext j ''enable_compression'')) (\<lambda>ec.
     bindE (optField json ''keep_routing_prefix'' False
              (\<lambda>j. parseBool ext j ''keep_routing_prefix'')) (\<lambda>krp.
     bindE (resolveQos ext json) (\<lambda>(qc, qp).
     bindE (resolveSecurity ext json) (\<lambda>sec.
     Inr \<lparr>timeout = t, connectTimeout = ct, protocol = pr, enableCompression = ec,
          keepRoutingPrefix = krp, qosClass = qc, qosPath = qp, security = sec\<rparr>))))))"

text \<open>Lines 235 to 246: the checks on \<^verbatim>\<open>servers\<close> and \<^verbatim>\<open>hostnames\<close>; the result is the array of servers.\<close>

definition checkServers :: "dynamic \<Rightarrow> error + dynamic list" where
  "checkServers json =
     bindE (get_ptr json ''servers'') (\<lambda>jservers.
     bindE (get_ptr json ''hostnames'') (\<lambda>jhostnames.
       case jservers of
         None \<Rightarrow> Inl (LogicError ''servers not found'')
       | Some js \<Rightarrow>
           (case js of
              DArray servers \<Rightarrow>
                bindE (checkLogic (case jhostnames of None \<Rightarrow> True | Some h \<Rightarrow> isArray h)
                         ''hostnames is not an array'') (\<lambda>_.
                bindE (checkLogic
                         (case jhostnames of None \<Rightarrow> True | Some h \<Rightarrow> dsize h = length servers)
                         (''hostnames expected to be of the same size as servers, expected ''
                            @ show_nat (length servers) @ '', got ''
                            @ show_nat (case jhostnames of None \<Rightarrow> 0 | Some h \<Rightarrow> dsize h))) (\<lambda>_.
                Inr servers))
            | _ \<Rightarrow> Inl (LogicError ''servers is not an array''))))"

text \<open>
  Lines 267 to 285: the overrides of mechanism and port, by the locality of the host.
\<close>

definition dcOverride ::
  "('rh, 'pd, 'w) externals \<Rightarrow> SecuritySettings \<Rightarrow> AccessPoint \<Rightarrow> AccessPoint" where
  "dcOverride ext sec ap =
     (if withinDcMech sec \<noteq> None \<or> crossDcMech sec \<noteq> None
         \<or> withinDcPort sec \<noteq> None \<or> crossDcPort sec \<noteq> None then
        (if isInLocalDatacenter ext (ap_host ap) then
           (let ap1 = (case withinDcMech sec of
                         Some m \<Rightarrow> ap\<lparr>ap_securityMech := m\<rparr> | None \<Rightarrow> ap)
            in case withinDcPort sec of Some p \<Rightarrow> ap1\<lparr>ap_port := p\<rparr> | None \<Rightarrow> ap1)
         else
           (let ap1 = (case crossDcMech sec of
                         Some m \<Rightarrow> ap\<lparr>ap_securityMech := m\<rparr> | None \<Rightarrow> ap)
            in case crossDcPort sec of Some p \<Rightarrow> ap1\<lparr>ap_port := p\<rparr> | None \<Rightarrow> ap1))
      else ap)"

text \<open>Lines 287 to 298: the codec manager is set up on first need.\<close>

definition compressionSetup ::
  "('rh, 'pd, 'w) externals \<Rightarrow> string \<Rightarrow> string \<Rightarrow> AccessPoint \<Rightarrow> 'w \<Rightarrow> AccessPoint \<times> 'w" where
  "compressionSetup ext name server ap w =
     (if ap_compressed ap \<and> \<not> getCodecManager ext w then
        (case initCompression ext w of
           (True, w') \<Rightarrow> (ap, w')
         | (False, w') \<Rightarrow>
             (ap\<lparr>ap_compressed := False\<rparr>,
              logFailure ext kBadEnvironment
                (''Pool '' @ name @ '': Failed to initialize compression. ''
                   @ ''Disabling compression for host: '' @ server) w'))
      else (ap, w))"

text \<open>
  The access point of a plain server as the transport sees it: created from the pool's
  settings, then overridden by locality (lines 263 to 285). Compression does not touch
  protocol or mechanism.
\<close>

definition effectiveAccessPoint ::
  "('rh, 'pd, 'w) externals \<Rightarrow> PoolSettings \<Rightarrow> string \<Rightarrow> AccessPoint option" where
  "effectiveAccessPoint ext st server =
     map_option (dcOverride ext (security st))
       (AccessPoint_create ext server (protocol st) (mech (security st))
          (port (security st)) (enableCompression st))"

text \<open>The body of the loop over the servers (lines 253 to 340), for the server at index \<open>i\<close>.\<close>

definition makeServer ::
  "('rh, 'pd, 'w) externals \<Rightarrow> ('rh, 'w) RouteHandleFactory \<Rightarrow> string \<Rightarrow> PoolSettings \<Rightarrow> int
     \<Rightarrow> nat \<Rightarrow> dynamic \<Rightarrow> ('rh option, 'rh, 'w) action" where
  "makeServer ext factory name st poolStatIndex i server s =
     (if \<not> (isString server \<or> isObject server) then
        (Inl (LogicError (''server #'' @ show_nat i @ '' is not a string/object'')), s)
      else if isObject server then factory_create factory server s
      else
        (case effectiveAccessPoint ext st (stringPiece server) of
           None \<Rightarrow> (Inl (LogicError (''invalid server '' @ stringPiece server)), s)
         | Some ap0 \<Rightarrow>
             (let (ap, w) = compressionSetup ext name (stringPiece server) ap0 (proxy s);
                  s1 = s\<lparr>accessPoints :=
                          (accessPoints s)(name \<mapsto>
                             (case accessPoints s name of None \<Rightarrow> [] | Some aps \<Rightarrow> aps) @ [ap]),
                        proxy := w\<rparr>
              in if ap_protocol ap = mc_thrift_protocol then
                   (if ap_securityMech ap = NONE \<or> ap_securityMech ap = TLS
                       \<or> ap_securityMech ap = TLS_TO_PLAINTEXT then
                      createDestinationRoute ext ThriftTransport ap (timeout st)
                        (connectTimeout st) (qosClass st) (qosPath st) name i poolStatIndex
                        (keepRoutingPrefix st) s1
                    else
                      (Inl (LogicError
                         (''Security mechanism must be '' @ [CHR 0x27] @ ''plain'' @ [CHR 0x27]
                            @ '', '' @ [CHR 0x27] @ ''tls'' @ [CHR 0x27] @ '' or ''
                            @ [CHR 0x27] @ ''tls_to_plain'' @ [CHR 0x27]
                            @ '' for ThriftTransport, got ''
                            @ securityMechToString ext (ap_securityMech ap))), s1))
                 else
                   createDestinationRoute ext AsyncMcClient ap (timeout st)
                     (connectTimeout st) (qosClass st) (qosPath st) name i poolStatIndex
                     (keepRoutingPrefix st) s1)))"

text \<open>The loop: \<^verbatim>\<open>destinations\<close> grows by one handle per server, from index \<open>i\<close> on.\<close>

fun makeServers ::
  "('rh, 'pd, 'w) externals \<Rightarrow> ('rh, 'w) RouteHandleFactory \<Rightarrow> string \<Rightarrow> PoolSettings \<Rightarrow> int
     \<Rightarrow> nat \<Rightarrow> dynamic list \<Rightarrow> 'rh option list \<Rightarrow> ('rh option list, 'rh, 'w) action" where
  "makeServers ext factory name st poolStatIndex i [] destinations s = (Inr destinations, s)"
| "makeServers ext factory name st poolStatIndex i (server # rest) destinations s =
     (case makeServer ext factory name st poolStatIndex i server s of
        (Inl e, s') \<Rightarrow> (Inl e, s')
      | (Inr rh, s') \<Rightarrow>
          makeServers ext factory name st poolStatIndex (Suc i) rest (destinations @ [rh]) s')"

text \<open>
  The \<^verbatim>\<open>try\<close> block (lines 129 to 347) for the locality read before it. The last
  statement is \<^verbatim>\<open>pools_.emplace(name, destinations).first->second\<close>.
\<close>

definition buildPool ::
  "('rh, 'pd, 'w) externals \<Rightarrow> ('rh, 'w) RouteHandleFactory \<Rightarrow> PoolJson \<Rightarrow> string \<Rightarrow> string
     \<Rightarrow> ('rh option list, 'rh, 'w) action" where
  "buildPool ext factory jpool region cluster =
     catchLogic (''Pool '' @ pj_name jpool @ '': '')
       (bindS (liftE (poolSettings ext (pj_json jpool) region cluster)) (\<lambda>st.
        bindS (liftE (checkServers (pj_json jpool))) (\<lambda>servers.
        bindS (makeServers ext factory (pj_name jpool) st
                 (getStatsEnabledPoolIndex ext (pj_name jpool)) 0 servers []) (\<lambda>destinations s.
          case pools s (pj_name jpool) of
            Some existing \<Rightarrow> (Inr existing, s)
          | None \<Rightarrow>
              (Inr destinations,
               s\<lparr>pools := (pools s)(pj_name jpool \<mapsto> destinations)\<rparr>)))))"

text \<open>What \<^verbatim>\<open>makePool\<close> does for a name that is not in \<^verbatim>\<open>pools_\<close> (lines 101 to 347).\<close>

definition constructPool ::
  "('rh, 'pd, 'w) externals \<Rightarrow> ('rh, 'w) RouteHandleFactory \<Rightarrow> PoolJson
     \<Rightarrow> ('rh option list, 'rh, 'w) action" where
  "constructPool ext factory jpool =
     bindS (localityField ext (pj_name jpool) (pj_json jpool) ''region'' ''pool_region'')
       (\<lambda>region.
     bindS (localityField ext (pj_name jpool) (pj_json jpool) ''cluster'' ''pool_cluster'')
       (\<lambda>cluster.
     buildPool ext factory jpool region cluster))"

definition makePool ::
  "('rh, 'pd, 'w) externals \<Rightarrow> ('rh, 'w) RouteHandleFactory \<Rightarrow> PoolJson
     \<Rightarrow> ('rh option list, 'rh, 'w) action" where
  "makePool ext factory jpool s =
     (case pools s (pj_name jpool) of
        Some existing \<Rightarrow> (Inr existing, s)
      | None \<Rightarrow> constructPool ext factory jpool s)"

subsection \<open>\<^verbatim>\<open>makePoolRoute\<close> (lines 376 to 459)\<close>

text \<open>Lines 404 to 428: \<^verbatim>\<open>jhashWithWeights\<close>.\<close>

definition hashConfig ::
  "('rh, 'pd, 'w) externals \<Rightarrow> dynamic \<Rightarrow> PoolJson \<Rightarrow> error + dynamic" where
  "hashConfig ext json poolJson =
     bindE (get_ptr (pj_json poolJson) ''weights'') (\<lambda>jWeights.
     bindE (get_ptr (pj_json poolJson) ''tags'') (\<lambda>jTags.
       let j0 = (case jWeights of
                   Some w \<Rightarrow> DObject [(''hash_func'', DString (WeightedCh3HashFunc_type ext)),
                                        (''weights'', w)]
                 | None \<Rightarrow> DObject []);
           j1 = (case jTags of Some t \<Rightarrow> dinsert ''tags'' t j0 | None \<Rightarrow> j0)
       in if isObject json then
            bindE (get_ptr json ''hash'') (\<lambda>jhash.
              case jhash of
                None \<Rightarrow> Inr j1
              | Some h \<Rightarrow>
                  bindE (checkLogic (isObject h \<or> isString h) ''hash is not object/string'')
                    (\<lambda>_. Inr (if isString h then dinsert ''hash_func'' h j1
                               else foldl (\<lambda>acc (k, v). dinsert k v acc) j1 (items h))))
          else Inr j1))"

text \<open>
  Lines 432 to 450: what the members \<^verbatim>\<open>rates\<close>, \<^verbatim>\<open>shard_splits\<close>, \<^verbatim>\<open>asynclog\<close> and
  \<^verbatim>\<open>name\<close> of an object make of \<^verbatim>\<open>route\<close>, \<^verbatim>\<open>needAsynclog\<close> and \<^verbatim>\<open>asynclogName\<close>.
\<close>

definition poolRouteWraps ::
  "('rh, 'pd, 'w) externals \<Rightarrow> dynamic \<Rightarrow> string \<Rightarrow> 'rh option
     \<Rightarrow> error + 'rh option \<times> bool \<times> string" where
  "poolRouteWraps ext json poolName route =
     (if isObject json then
        bindE (get_ptr json ''rates'') (\<lambda>jrates.
        bindE (case jrates of
                 Some r \<Rightarrow> createRateLimitRoute ext route r
               | None \<Rightarrow> Inr route) (\<lambda>route1.
        bindE (if \<not> disable_shard_split_route (opts ext) then
                 bindE (get_ptr json ''shard_splits'') (\<lambda>jsplits.
                   case jsplits of
                     Some sp \<Rightarrow> makeShardSplitRoute ext route1 sp
                   | None \<Rightarrow> Inr route1)
               else Inr route1) (\<lambda>route2.
        bindE (optField json ''asynclog'' True (\<lambda>j. parseBool ext j ''asynclog''))
          (\<lambda>needAsynclog.
        bindE (optField json ''name'' poolName (\<lambda>j. parseString ext j ''name''))
          (\<lambda>asynclogName.
        Inr (route2, needAsynclog, asynclogName))))))
      else Inr (route, True, poolName))"

text \<open>Lines 432 to 455.\<close>

definition decoratePoolRoute ::
  "('rh, 'pd, 'w) externals \<Rightarrow> dynamic \<Rightarrow> string \<Rightarrow> 'rh option
     \<Rightarrow> ('rh option, 'rh, 'w) action" where
  "decoratePoolRoute ext json poolName route =
     bindS (liftE (poolRouteWraps ext json poolName route))
       (\<lambda>(route2, needAsynclog, asynclogName).
          if needAsynclog then createAsynclogRoute ext route2 asynclogName
          else liftE (Inr route2))"

text \<open>Lines 381 to 390: the pool a \<^verbatim>\<open>PoolRoute\<close> names.\<close>

definition poolRoutePool :: "dynamic \<Rightarrow> error + dynamic" where
  "poolRoutePool json =
     bindE (checkLogic (isObject json \<or> isString json)
              ''PoolRoute should be object or string'') (\<lambda>_.
       if isObject json then
         bindE (get_ptr json ''pool'') (\<lambda>jpool.
           case jpool of
             None \<Rightarrow> Inl (LogicError ''PoolRoute: pool not found'')
           | Some p \<Rightarrow> Inr p)
       else Inr json)"

definition makePoolRoute ::
  "('rh, 'pd, 'w) externals \<Rightarrow> ('rh, 'w) RouteHandleFactory \<Rightarrow> dynamic
     \<Rightarrow> ('rh option, 'rh, 'w) action" where
  "makePoolRoute ext factory json =
     bindS (liftE (poolRoutePool json)) (\<lambda>jpool.
     bindS (liftE (parsePool ext jpool)) (\<lambda>poolJson.
     bindS (makePool ext factory poolJson) (\<lambda>destinations.
     catchLogic (''PoolRoute '' @ pj_name poolJson @ '': '')
       (bindS (wrapPoolDestinations ext factory destinations (pj_name poolJson) json)
          (\<lambda>wrapped.
        bindS (liftE (hashConfig ext json poolJson)) (\<lambda>jhashWithWeights.
        bindS (liftE (createHashRoute ext jhashWithWeights wrapped (getThreadId factory)))
          (\<lambda>route.
        decoratePoolRoute ext json (pj_name poolJson) route)))))))"

subsection \<open>\<^verbatim>\<open>buildCheckedRouteMap\<close> (lines 467 to 492)\<close>

definition checkedFactory ::
  "string \<Rightarrow> (('rh, 'w) RouteHandleFactory \<Rightarrow> dynamic \<Rightarrow> ('rh option, 'rh, 'w) action)
     \<Rightarrow> ('rh, 'w) RouteHandleFactory \<Rightarrow> dynamic \<Rightarrow> ('rh option, 'rh, 'w) action" where
  "checkedFactory rhName factoryFunc factory json =
     bindS (factoryFunc factory json) (\<lambda>rh.
       liftE (case rh of
                None \<Rightarrow> Inl (LogicError (''make'' @ rhName @ '' returned nullptr''))
              | Some _ \<Rightarrow> Inr rh))"

definition buildCheckedRouteMap ::
  "('rh, 'pd, 'w) externals
     \<Rightarrow> (string \<times> (('rh, 'w) RouteHandleFactory \<Rightarrow> dynamic \<Rightarrow> ('rh option, 'rh, 'w) action)) list"
  where
  "buildCheckedRouteMap ext =
     map (\<lambda>(rhName, factoryFunc). (rhName, checkedFactory rhName factoryFunc))
       (buildRouteMap ext)"

subsection \<open>\<^verbatim>\<open>create\<close> (lines 499 to 568)\<close>

text \<open>
  Lines 510 to 538: the configuration that \<^verbatim>\<open>SaltedFailoverRoute\<close> hands to the
  failover builder. \<^verbatim>\<open>jPool\<close> is dereferenced at line 519 without a test.
\<close>

definition saltedFailoverJson :: "dynamic \<Rightarrow> error + dynamic" where
  "saltedFailoverJson json =
     bindE (get_ptr json ''pool'') (\<lambda>jPool.
       case jPool of
         None \<Rightarrow> Inl NullDeref
       | Some p \<Rightarrow>
           bindE (if isString p then
                    Inr (dinsert ''pool'' (DString (stringPiece p))
                           (dinsert ''type'' (DString ''PoolRoute'') (DObject [])))
                  else if isObject p then
                    Inr (dinsert ''pool'' p
                           (dinsert ''type'' (DString ''PoolRoute'') (DObject [])))
                  else Inl (LogicError ''pool needs to be either a string or an object''))
             (\<lambda>normalRoute1.
           bindE (get_ptr json ''hash'') (\<lambda>jHash.
             let normalRoute = (case jHash of
                                  Some h \<Rightarrow> dinsert ''hash'' h normalRoute1
                                | None \<Rightarrow> normalRoute1)
             in bindE (if isString p then
                         Inr [normalRoute, DString (''Pool|'' @ stringPiece p)]
                       else if isObject p then Inr [normalRoute, p]
                       else Inl (LogicError ''pool needs to be either a string or an object''))
                  (\<lambda>children.
                Inr (dinsert ''children'' (DArray children) (derase ''children'' json))))))"

definition unknownRouteHandle ::
  "('rh, 'pd, 'w) externals \<Rightarrow> string \<Rightarrow> dynamic \<Rightarrow> error + 'rh option list" where
  "unknownRouteHandle ext type json =
     bindE (get_ptr json ''type'') (\<lambda>jType.
       case configMetadataLine ext jType of
         Some line \<Rightarrow>
           Inl (LogicError (''Unknown RouteHandle: '' @ type @ '' line: '' @ show_nat (line + 1)))
       | None \<Rightarrow> Inl (LogicError (''Unknown RouteHandle: '' @ type)))"

definition single :: "('a, 'rh, 'w) action \<Rightarrow> ('a list, 'rh, 'w) action" where
  "single m = bindS m (\<lambda>rh. liftE (Inr [rh]))"

definition create ::
  "('rh, 'pd, 'w) externals \<Rightarrow> ('rh, 'w) RouteHandleFactory \<Rightarrow> string \<Rightarrow> dynamic
     \<Rightarrow> ('rh option list, 'rh, 'w) action" where
  "create ext factory type json =
     (if type = ''Pool'' then
        bindS (liftE (parsePool ext json)) (makePool ext factory)
      else if type = ''ShadowRoute'' then makeShadowRoutes ext factory json
      else if type = ''SaltedFailoverRoute'' then
        bindS (liftE (saltedFailoverJson json)) (\<lambda>newJson.
          single (makeFailoverRoute ext factory newJson))
      else if type = ''FailoverRoute'' then single (makeFailoverRoute ext factory json)
      else if type = ''PoolRoute'' then single (makePoolRoute ext factory json)
      else
        (case map_of (buildCheckedRouteMap ext) type of
           Some f \<Rightarrow> single (f factory json)
         | None \<Rightarrow>
             bindS (tryCreate ext factory type json) (\<lambda>ret.
               if ret \<noteq> [] then liftE (Inr ret)
               else liftE (unknownRouteHandle ext type json))))"

section \<open>A concrete instance\<close>

text \<open>
  The examples below run the operations. They need collaborators that compute: route
  handles are terms that show how they were built, the objects behind \<^verbatim>\<open>proxy_\<close> are
  the list of destinations requested from the destination map, the codec manager flag
  and the failure log, and the parsing helpers accept the JSON kind they are named
  after. No theorem about the provider depends on them.
\<close>

datatype handle =
    DestinationRoute Transport AccessPoint string nat int int bool
  | HashRoute dynamic "handle option list" nat
  | RateLimitRoute "handle option" dynamic
  | ShardSplitRoute "handle option" dynamic
  | AsynclogRoute "handle option" string
  | FailoverRoute dynamic
  | ConfiguredRoute dynamic

type_synonym destination = "Transport \<times> AccessPoint \<times> int \<times> nat \<times> nat"

record world =
  destinations :: "destination list"
  codecManager :: bool
  failures :: "(Category \<times> string) list"

fun testParseTimeout :: "dynamic \<Rightarrow> string \<Rightarrow> error + int" where
  "testParseTimeout (DInt n) name =
     (if 0 < n then Inr n else Inl (LogicError (name @ '' should be positive'')))"
| "testParseTimeout _ name = Inl (LogicError (name @ '' is not a number''))"

fun testParseString :: "dynamic \<Rightarrow> string \<Rightarrow> error + string" where
  "testParseString (DString x) name = Inr x"
| "testParseString _ name = Inl (LogicError (name @ '' is not a string''))"

fun testParseBool :: "dynamic \<Rightarrow> string \<Rightarrow> error + bool" where
  "testParseBool (DBool b) name = Inr b"
| "testParseBool _ name = Inl (LogicError (name @ '' is not a bool''))"

fun testParseInt :: "dynamic \<Rightarrow> string \<Rightarrow> int \<Rightarrow> int \<Rightarrow> error + int" where
  "testParseInt (DInt n) name lo hi =
     (if lo \<le> n \<and> n \<le> hi then Inr n else Inl (LogicError (name @ '' is out of range'')))"
| "testParseInt _ name lo hi = Inl (LogicError (name @ '' is not an integer''))"

definition testParseSecurityMech :: "string \<Rightarrow> error + SecurityMech" where
  "testParseSecurityMech x =
     (if x = ''plain'' then Inr NONE
      else if x = ''ssl'' then Inr TLS
      else if x = ''tls_to_plain'' then Inr TLS_TO_PLAINTEXT
      else if x = ''fizz'' then Inr (OtherMech 0)
      else Inl (LogicError (''Invalid security mech: '' @ x)))"

fun testSecurityMechToString :: "SecurityMech \<Rightarrow> string" where
  "testSecurityMechToString NONE = ''plain''"
| "testSecurityMechToString TLS = ''ssl''"
| "testSecurityMechToString TLS_TO_PLAINTEXT = ''tls_to_plain''"
| "testSecurityMechToString (OtherMech _) = ''fizz''"

definition testAccessPoint ::
  "string \<Rightarrow> mc_protocol_t \<Rightarrow> SecurityMech \<Rightarrow> nat \<Rightarrow> bool \<Rightarrow> AccessPoint option" where
  "testAccessPoint server pr m p c =
     (if server = [] then None
      else Some \<lparr>ap_host = server, ap_port = (if p = 0 then 11211 else p), ap_protocol = pr,
                 ap_securityMech = m, ap_compressed = c\<rparr>)"

fun testParsePool :: "(string \<times> dynamic) list \<Rightarrow> dynamic \<Rightarrow> error + PoolJson" where
  "testParsePool table (DString n) =
     (case map_of table n of
        Some j \<Rightarrow> Inr \<lparr>pj_name = n, pj_json = j\<rparr>
      | None \<Rightarrow> Inl (LogicError (''Pool '' @ n @ '' not found'')))"
| "testParsePool table (DObject kvs) =
     (case map_of kvs ''name'' of
        Some (DString n) \<Rightarrow> Inr \<lparr>pj_name = n, pj_json = DObject kvs\<rparr>
      | _ \<Rightarrow> Inl (LogicError ''Pool should have a name''))"
| "testParsePool table _ = Inl (LogicError ''Pool should be a string or an object'')"

definition testExternals ::
  "McrouterOptions \<Rightarrow> bool \<Rightarrow> (string \<times> dynamic) list
     \<Rightarrow> (string \<times> ((handle, world) RouteHandleFactory \<Rightarrow> dynamic
            \<Rightarrow> (handle option, handle, world) action)) list
     \<Rightarrow> (handle, destination, world) externals" where
  "testExternals options secure table routes =
     \<lparr>opts = options,
      enableSecurityConfig = secure,
      parseTimeout = testParseTimeout,
      parseString = testParseString,
      parseBool = testParseBool,
      parseInt = testParseInt,
      parseSecurityMech = testParseSecurityMech,
      securityMechToString = testSecurityMechToString,
      AccessPoint_create = testAccessPoint,
      isInLocalDatacenter = (\<lambda>h. take 5 h = ''local''),
      getStatsEnabledPoolIndex = (\<lambda>_. - 1),
      getCodecManager = codecManager,
      initCompression = (\<lambda>w. (True, w\<lparr>codecManager := True\<rparr>)),
      logFailure = (\<lambda>c m w. w\<lparr>failures := failures w @ [(c, m)]\<rparr>),
      destinationMap_emplace =
        (\<lambda>tr ap t qc qp w. ((tr, ap, t, qc, qp),
                             w\<lparr>destinations := destinations w @ [(tr, ap, t, qc, qp)]\<rparr>)),
      updateShortestTimeout = (\<lambda>_ _ _ w. w),
      makeDestinationRoute =
        (\<lambda>tr pd n i psi t krp. Some (DestinationRoute tr (fst (snd pd)) n i psi t krp)),
      parsePool = testParsePool table,
      wrapPoolDestinations = (\<lambda>_ ds _ _ s. (Inr ds, s)),
      WeightedCh3HashFunc_type = ''WeightedCh3'',
      createHashRoute = (\<lambda>j ds tid. Inr (Some (HashRoute j ds tid))),
      createRateLimitRoute = (\<lambda>r j. Inr (Some (RateLimitRoute r j))),
      makeShardSplitRoute = (\<lambda>r j. Inr (Some (ShardSplitRoute r j))),
      makeAsynclogRoute = (\<lambda>r n. Some (AsynclogRoute r n)),
      makeFailoverRoute = (\<lambda>_ j s. (Inr (Some (FailoverRoute j)), s)),
      makeShadowRoutes = (\<lambda>_ _ s. (Inr [], s)),
      tryCreate = (\<lambda>_ _ _ s. (Inr [], s)),
      buildRouteMap = routes,
      configMetadataLine = (\<lambda>_. None)\<rparr>"

definition testOptions :: McrouterOptions where
  "testOptions =
     \<lparr>asynclog_disable = False, server_timeout_ms = 1000, within_cluster_timeout_ms = 50,
      cross_cluster_timeout_ms = 0, cross_region_timeout_ms = 300,
      default_route_region = ''east'', default_route_cluster = ''c1'',
      enable_compression = False, default_qos_class = 0, default_qos_path = 0,
      disable_shard_split_route = False\<rparr>"

definition testFactory :: "(handle, world) RouteHandleFactory" where
  "testFactory = \<lparr>factory_create = (\<lambda>j s. (Inr (Some (ConfiguredRoute j)), s)), getThreadId = 0\<rparr>"

definition emptyProvider :: "(handle, world) provider" where
  "emptyProvider =
     \<lparr>pools = Map.empty, asyncLogRoutes = Map.empty, accessPoints = Map.empty,
      proxy = \<lparr>destinations = [], codecManager = False, failures = []\<rparr>\<rparr>"


definition apLocal1 :: AccessPoint where
  "apLocal1 = \<lparr>ap_host = ''local1:11211'', ap_port = 11211, ap_protocol = mc_ascii_protocol,
               ap_securityMech = NONE, ap_compressed = False\<rparr>"

definition apRemote2 :: AccessPoint where
  "apRemote2 = \<lparr>ap_host = ''remote2:11211'', ap_port = 11211, ap_protocol = mc_ascii_protocol,
                ap_securityMech = NONE, ap_compressed = False\<rparr>"

text \<open>A pool in the proxy's own region and cluster, with two plain servers.\<close>

definition poolA :: PoolJson where
  "poolA = \<lparr>pj_name = ''A'',
            pj_json = DObject [(''region'', DString ''east''), (''cluster'', DString ''c1''),
                               (''servers'', DArray [DString ''local1:11211'',
                                                     DString ''remote2:11211''])]\<rparr>"

definition poolA_handles :: "handle option list" where
  "poolA_handles =
     [Some (DestinationRoute AsyncMcClient apLocal1 ''A'' 0 (- 1) 50 False),
      Some (DestinationRoute AsyncMcClient apRemote2 ''A'' 1 (- 1) 50 False)]"

definition afterPoolA :: "(handle, world) provider" where
  "afterPoolA =
     \<lparr>pools = [''A'' \<mapsto> poolA_handles],
      asyncLogRoutes = Map.empty,
      accessPoints = [''A'' \<mapsto> [apLocal1, apRemote2]],
      proxy = \<lparr>destinations = [(AsyncMcClient, apLocal1, 50, 0, 0),
                                (AsyncMcClient, apRemote2, 50, 0, 0)],
               codecManager = False, failures = []\<rparr>\<rparr>"

text \<open>Collaborators with the security configuration switched on.\<close>

definition secureExternals :: "(handle, destination, world) externals" where
  "secureExternals = testExternals testOptions True [] []"

text \<open>A pool of the proxy's region in another cluster, with a timeout of its own.\<close>

definition poolB :: PoolJson where
  "poolB = \<lparr>pj_name = ''B'',
            pj_json = DObject [(''region'', DString ''east''), (''cluster'', DString ''c2''),
                               (''server_timeout'', DInt 200),
                               (''servers'', DArray [DString ''remote3:11211''])]\<rparr>"

definition settingsOf :: "int \<Rightarrow> int \<Rightarrow> mc_protocol_t \<Rightarrow> SecurityMech \<Rightarrow> PoolSettings" where
  "settingsOf t ct pr m =
     \<lparr>timeout = t, connectTimeout = ct, protocol = pr, enableCompression = False,
      keepRoutingPrefix = False, qosClass = 0, qosPath = 0,
      security = \<lparr>mech = m, withinDcMech = None, crossDcMech = None, crossDcPort = None,
                  withinDcPort = None, port = 0\<rparr>\<rparr>"

text \<open>A pool of one plain server with a protocol and a security mechanism.\<close>

definition mechPool :: "string \<Rightarrow> string \<Rightarrow> PoolJson" where
  "mechPool pr m =
     \<lparr>pj_name = ''T'',
      pj_json = DObject [(''protocol'', DString pr), (''security_mech'', DString m),
                         (''servers'', DArray [DString ''local1:11211''])]\<rparr>"

definition mechAccessPoint :: "mc_protocol_t \<Rightarrow> SecurityMech \<Rightarrow> AccessPoint" where
  "mechAccessPoint pr m =
     \<lparr>ap_host = ''local1:11211'', ap_port = 11211, ap_protocol = pr, ap_securityMech = m,
      ap_compressed = False\<rparr>"

text \<open>Three servers, two host names.\<close>

definition poolH :: PoolJson where
  "poolH = \<lparr>pj_name = ''H'',
            pj_json = DObject [(''servers'', DArray [DString ''h1:1'', DString ''h2:1'',
                                                     DString ''h3:1'']),
                               (''hostnames'', DArray [DString ''h1'', DString ''h2''])]\<rparr>"

definition saltedJson :: dynamic where
  "saltedJson =
     DObject [(''type'', DString ''SaltedFailoverRoute''), (''pool'', DString ''P''),
              (''hash'', DObject [(''hash_func'', DString ''Ch3'')]),
              (''failover_policy'', DString ''x'')]"

text \<open>The pools that a pool name can refer to, and collaborators that know them.\<close>

definition poolTable :: "(string \<times> dynamic) list" where
  "poolTable = [(''A'', pj_json poolA), (''B'', pj_json poolB)]"

definition routeExternals :: "bool \<Rightarrow> (handle, destination, world) externals" where
  "routeExternals noAsynclog =
     testExternals (testOptions\<lparr>asynclog_disable := noAsynclog\<rparr>) False poolTable []"

definition apRemote3 :: AccessPoint where
  "apRemote3 = \<lparr>ap_host = ''remote3:11211'', ap_port = 11211, ap_protocol = mc_ascii_protocol,
                ap_securityMech = NONE, ap_compressed = False\<rparr>"

definition hashA :: "handle option" where
  "hashA = Some (HashRoute (DObject []) poolA_handles 0)"

definition hashB :: "handle option" where
  "hashB = Some (HashRoute (DObject [])
                   [Some (DestinationRoute AsyncMcClient apRemote3 ''B'' 0 (- 1) 200 False)] 0)"

text \<open>Pool routes: a plain one, one with every decoration, and one with a log name.\<close>

definition poolRouteA :: dynamic where
  "poolRouteA = DObject [(''type'', DString ''PoolRoute''), (''pool'', DString ''A'')]"

definition poolRouteA_rates :: dynamic where
  "poolRouteA_rates =
     DObject [(''pool'', DString ''A''), (''shard_splits'', DObject []),
              (''rates'', DObject [(''sets_rate'', DInt 10)])]"

definition namedRoute :: "string \<Rightarrow> dynamic" where
  "namedRoute p = DObject [(''pool'', DString p), (''name'', DString ''log'')]"

text \<open>The state after \<open>poolRouteA_rates\<close> has been composed with async logging on.\<close>

definition afterRatesRoute :: "(handle, world) provider" where
  "afterRatesRoute =
     afterPoolA\<lparr>asyncLogRoutes :=
       [''A'' \<mapsto> Some (AsynclogRoute
                        (Some (ShardSplitRoute
                           (Some (RateLimitRoute hashA (DObject [(''sets_rate'', DInt 10)])))
                           (DObject [])))
                        ''A'')]\<rparr>"

text \<open>A route factory that yields no handle, and a route map that registers it.\<close>

definition nullFactory ::
  "(handle, world) RouteHandleFactory \<Rightarrow> dynamic \<Rightarrow> (handle option, handle, world) action" where
  "nullFactory f j s = (Inr None, s)"

definition nullExternals :: "(handle, destination, world) externals" where
  "nullExternals =
     testExternals testOptions False [] [(''FailoverRoute'', nullFactory), (''Foo'', nullFactory)]"

text \<open>A pool of another region.\<close>

definition apRemote4 :: AccessPoint where
  "apRemote4 = \<lparr>ap_host = ''remote4:11211'', ap_port = 11211, ap_protocol = mc_ascii_protocol,
                ap_securityMech = NONE, ap_compressed = False\<rparr>"

definition poolC :: PoolJson where
  "poolC = \<lparr>pj_name = ''C'',
            pj_json = DObject [(''region'', DString ''west''), (''cluster'', DString ''c1''),
                               (''servers'', DArray [DString ''remote4:11211''])]\<rparr>"

text \<open>The state after the pool route \<open>namedRoute ''A''\<close> has been composed.\<close>

definition afterNamedA :: "(handle, world) provider" where
  "afterNamedA =
     afterPoolA\<lparr>asyncLogRoutes := [''log'' \<mapsto> Some (AsynclogRoute hashA ''log'')]\<rparr>"

section \<open>Properties\<close>

subsection \<open>Evaluation and sequencing\<close>

lemma testExternals_sel [simp]:
  "opts (testExternals options secure table routes) = options"
  "enableSecurityConfig (testExternals options secure table routes) = secure"
  "parseTimeout (testExternals options secure table routes) = testParseTimeout"
  "parseString (testExternals options secure table routes) = testParseString"
  "parseBool (testExternals options secure table routes) = testParseBool"
  "parseInt (testExternals options secure table routes) = testParseInt"
  "parseSecurityMech (testExternals options secure table routes) = testParseSecurityMech"
  "securityMechToString (testExternals options secure table routes) = testSecurityMechToString"
  "AccessPoint_create (testExternals options secure table routes) = testAccessPoint"
  "isInLocalDatacenter (testExternals options secure table routes) = (\<lambda>h. take 5 h = ''local'')"
  "getStatsEnabledPoolIndex (testExternals options secure table routes) = (\<lambda>_. - 1)"
  "getCodecManager (testExternals options secure table routes) = codecManager"
  "initCompression (testExternals options secure table routes) = (\<lambda>w. (True, w\<lparr>codecManager := True\<rparr>))"
  "logFailure (testExternals options secure table routes) = (\<lambda>c m w. w\<lparr>failures := failures w @ [(c, m)]\<rparr>)"
  "destinationMap_emplace (testExternals options secure table routes) =
        (\<lambda>tr ap t qc qp w. ((tr, ap, t, qc, qp),
                             w\<lparr>destinations := destinations w @ [(tr, ap, t, qc, qp)]\<rparr>))"
  "updateShortestTimeout (testExternals options secure table routes) = (\<lambda>_ _ _ w. w)"
  "makeDestinationRoute (testExternals options secure table routes) =
        (\<lambda>tr pd n i psi t krp. Some (DestinationRoute tr (fst (snd pd)) n i psi t krp))"
  "parsePool (testExternals options secure table routes) = testParsePool table"
  "wrapPoolDestinations (testExternals options secure table routes) = (\<lambda>_ ds _ _ s. (Inr ds, s))"
  "WeightedCh3HashFunc_type (testExternals options secure table routes) = ''WeightedCh3''"
  "createHashRoute (testExternals options secure table routes) = (\<lambda>j ds tid. Inr (Some (HashRoute j ds tid)))"
  "createRateLimitRoute (testExternals options secure table routes) = (\<lambda>r j. Inr (Some (RateLimitRoute r j)))"
  "makeShardSplitRoute (testExternals options secure table routes) = (\<lambda>r j. Inr (Some (ShardSplitRoute r j)))"
  "makeAsynclogRoute (testExternals options secure table routes) = (\<lambda>r n. Some (AsynclogRoute r n))"
  "makeFailoverRoute (testExternals options secure table routes) = (\<lambda>_ j s. (Inr (Some (FailoverRoute j)), s))"
  "makeShadowRoutes (testExternals options secure table routes) = (\<lambda>_ _ s. (Inr [], s))"
  "tryCreate (testExternals options secure table routes) = (\<lambda>_ _ _ s. (Inr [], s))"
  "buildRouteMap (testExternals options secure table routes) = routes"
  "configMetadataLine (testExternals options secure table routes) = (\<lambda>_. None)"
  by (simp_all add: testExternals_def)

lemmas model_defs =
  makePool_def constructPool_def buildPool_def localityField_def poolSettings_def
  resolveTimeouts_def resolveProtocol_def resolveQos_def resolveSecurity_def checkServers_def
  makeServer_def effectiveAccessPoint_def dcOverride_def compressionSetup_def
  createDestinationRoute_def bindS_def bindE_def liftE_def catchLogic_def optField_def
  checkLogic_def emplace_def parseMechField_def parsePortField_def

lemmas test_defs =
  testOptions_def testFactory_def emptyProvider_def testAccessPoint_def apLocal1_def
  apRemote2_def poolA_def poolA_handles_def afterPoolA_def secureExternals_def poolB_def
  settingsOf_def mechPool_def mechAccessPoint_def poolH_def testParseSecurityMech_def
  poolTable_def routeExternals_def apRemote3_def hashA_def hashB_def poolRouteA_def
  poolRouteA_rates_def namedRoute_def afterRatesRoute_def nullFactory_def nullExternals_def
  apRemote4_def poolC_def afterNamedA_def

lemmas route_defs =
  makePoolRoute_def poolRoutePool_def hashConfig_def poolRouteWraps_def decoratePoolRoute_def
  createAsynclogRoute_def create_def single_def saltedFailoverJson_def unknownRouteHandle_def
  buildCheckedRouteMap_def checkedFactory_def Let_def

lemma makePool_uncached:
  assumes "pools s (pj_name jpool) = None"
    and "localityField ext (pj_name jpool) (pj_json jpool) ''region'' ''pool_region'' s
           = (Inr region, s1)"
    and "localityField ext (pj_name jpool) (pj_json jpool) ''cluster'' ''pool_cluster'' s1
           = (Inr cluster, s2)"
  shows "makePool ext factory jpool s = buildPool ext factory jpool region cluster s2"
  using assms by (simp add: makePool_def constructPool_def bindS_def)

lemma localityField_pools:
  "localityField ext name json key label s = (r, s') \<Longrightarrow> pools s' = pools s"
  by (auto simp: localityField_def split: sum.splits option.splits if_splits)

subsection \<open>The pool cache\<close>

lemma buildPool_success_cached:
  assumes "buildPool ext factory jpool region cluster s = (Inr ds, s')"
  shows "pools s' (pj_name jpool) = Some ds"
  using assms
  by (auto simp: buildPool_def catchLogic_def bindS_def liftE_def
           split: sum.splits prod.splits option.splits)

lemma constructPool_success_cached:
  assumes "constructPool ext factory jpool s = (Inr ds, s')"
  shows "pools s' (pj_name jpool) = Some ds"
  using assms
  by (auto simp: constructPool_def bindS_def split: sum.splits prod.splits
           dest: buildPool_success_cached)

text \<open>
  C1. Once \<^verbatim>\<open>makePool\<close> has returned a sequence for a pool name, a further call for
  that name, whatever its JSON, its factory and the collaborators, returns the same
  sequence (same length, same handles in the same order) and leaves the whole state as
  it is: nothing is parsed, no collaborator is called, nothing is built again.
\<close>

theorem makePool_idempotent:
  assumes "makePool ext factory jpool s = (Inr ds, s')"
    and "pj_name jpool' = pj_name jpool"
  shows "makePool ext' factory' jpool' s' = (Inr ds, s')"
proof (cases "pools s (pj_name jpool)")
  case None
  with assms(1) have "constructPool ext factory jpool s = (Inr ds, s')"
    by (simp add: makePool_def)
  then have "pools s' (pj_name jpool) = Some ds"
    by (rule constructPool_success_cached)
  with assms(2) show ?thesis by (simp add: makePool_def)
next
  case (Some existing)
  with assms show ?thesis by (auto simp: makePool_def)
qed

lemma makePool_poolA:
  "makePool (testExternals testOptions False [] []) testFactory poolA emptyProvider
     = (Inr poolA_handles, afterPoolA)"
  by (simp add: model_defs test_defs)

theorem makePool_idempotent_witness:
  "makePool (testExternals testOptions False [] []) testFactory poolA emptyProvider
     = (Inr poolA_handles, afterPoolA)
   \<and> length poolA_handles = 2
   \<and> makePool (testExternals testOptions True [] []) testFactory
        \<lparr>pj_name = ''A'', pj_json = DNull\<rparr> afterPoolA
     = (Inr poolA_handles, afterPoolA)"
proof -
  have name: "pj_name \<lparr>pj_name = ''A'', pj_json = DNull\<rparr> = pj_name poolA"
    by (simp add: poolA_def)
  show ?thesis
    using makePool_idempotent [OF makePool_poolA name] makePool_poolA
    by (simp add: poolA_handles_def)
qed

subsection \<open>\<^verbatim>\<open>SaltedFailoverRoute\<close>\<close>

lemma saltedFailoverJson_string:
  assumes "map_of kvs ''pool'' = Some (DString P)" and "map_of kvs ''hash'' = Some H"
  shows "saltedFailoverJson (DObject kvs) =
     Inr (DObject (AList.update ''children''
            (DArray [DObject [(''type'', DString ''PoolRoute''), (''pool'', DString P), (''hash'', H)],
                     DString (''Pool|'' @ P)])
            (AList.delete ''children'' kvs)))"
  using assms by (simp add: saltedFailoverJson_def bindE_def)

text \<open>
  C2. For a \<^verbatim>\<open>SaltedFailoverRoute\<close> object whose \<^verbatim>\<open>pool\<close> is the string \<open>P\<close> and whose
  \<^verbatim>\<open>hash\<close> is \<open>H\<close>, \<^verbatim>\<open>create\<close> hands to the failover builder the same object with
  \<^verbatim>\<open>children\<close> replaced by two entries, in this order: the object
  \<^verbatim>\<open>{type: PoolRoute, pool: P, hash: H}\<close> and the pool reference \<^verbatim>\<open>"Pool|P"\<close>. All other
  members are as in the input, and the result of \<^verbatim>\<open>create\<close> is the one handle of
  the failover builder.
\<close>

theorem create_SaltedFailoverRoute:
  assumes "map_of kvs ''pool'' = Some (DString P)" and "map_of kvs ''hash'' = Some H"
  shows "create ext factory ''SaltedFailoverRoute'' (DObject kvs)
           = single (makeFailoverRoute ext factory
               (DObject (AList.update ''children''
                  (DArray [DObject [(''type'', DString ''PoolRoute''), (''pool'', DString P),
                                    (''hash'', H)],
                           DString (''Pool|'' @ P)])
                  (AList.delete ''children'' kvs))))
         \<and> get_ptr (DObject (AList.update ''children''
                  (DArray [DObject [(''type'', DString ''PoolRoute''), (''pool'', DString P),
                                    (''hash'', H)],
                           DString (''Pool|'' @ P)])
                  (AList.delete ''children'' kvs))) ''children''
             = Inr (Some (DArray [DObject [(''type'', DString ''PoolRoute''),
                                           (''pool'', DString P), (''hash'', H)],
                                  DString (''Pool|'' @ P)]))
         \<and> (\<forall>k. k \<noteq> ''children'' \<longrightarrow>
               get_ptr (DObject (AList.update ''children''
                  (DArray [DObject [(''type'', DString ''PoolRoute''), (''pool'', DString P),
                                    (''hash'', H)],
                           DString (''Pool|'' @ P)])
                  (AList.delete ''children'' kvs))) k
               = get_ptr (DObject kvs) k)"
proof (intro conjI)
  show "create ext factory ''SaltedFailoverRoute'' (DObject kvs)
           = single (makeFailoverRoute ext factory
               (DObject (AList.update ''children''
                  (DArray [DObject [(''type'', DString ''PoolRoute''), (''pool'', DString P),
                                    (''hash'', H)],
                           DString (''Pool|'' @ P)])
                  (AList.delete ''children'' kvs))))"
    using saltedFailoverJson_string [OF assms]
    by (auto simp: create_def bindS_def liftE_def fun_eq_iff)
qed (simp_all add: update_conv' delete_conv')

theorem create_SaltedFailoverRoute_witness:
  "map_of (items saltedJson) ''pool'' = Some (DString ''P'')
   \<and> map_of (items saltedJson) ''hash'' = Some (DObject [(''hash_func'', DString ''Ch3'')])
   \<and> create secureExternals testFactory ''SaltedFailoverRoute'' saltedJson emptyProvider
       = (Inr [Some (FailoverRoute
            (DObject [(''type'', DString ''SaltedFailoverRoute''), (''pool'', DString ''P''),
                      (''hash'', DObject [(''hash_func'', DString ''Ch3'')]),
                      (''failover_policy'', DString ''x''),
                      (''children'',
                       DArray [DObject [(''type'', DString ''PoolRoute''),
                                        (''pool'', DString ''P''),
                                        (''hash'', DObject [(''hash_func'', DString ''Ch3'')])],
                               DString ''Pool|P''])]))],
          emptyProvider)
   \<and> get_ptr saltedJson ''failover_policy'' = Inr (Some (DString ''x''))"
proof -
  have p: "map_of (items saltedJson) ''pool'' = Some (DString ''P'')"
    by (simp add: saltedJson_def)
  have h: "map_of (items saltedJson) ''hash'' = Some (DObject [(''hash_func'', DString ''Ch3'')])"
    by (simp add: saltedJson_def)
  have j: "DObject (items saltedJson) = saltedJson"
    by (simp add: saltedJson_def)
  show ?thesis
    using create_SaltedFailoverRoute [OF p h, of secureExternals testFactory] p h
    by (simp add: j) (simp add: saltedJson_def single_def bindS_def liftE_def
                                secureExternals_def)
qed

subsection \<open>Thrift and the security mechanism\<close>

lemma compressionSetup_fields:
  "compressionSetup ext n sv ap w = (ap', w') \<Longrightarrow>
     ap_protocol ap' = ap_protocol ap \<and> ap_securityMech ap' = ap_securityMech ap"
  by (auto simp: compressionSetup_def split: if_splits prod.splits bool.splits)

lemma makeServer_thrift_refused:
  assumes "effectiveAccessPoint ext st server = Some ap"
    and "ap_protocol ap = mc_thrift_protocol"
    and "ap_securityMech ap \<notin> {NONE, TLS, TLS_TO_PLAINTEXT}"
  shows "\<exists>s'. makeServer ext factory name st psi i (DString server) s
           = (Inl (LogicError
                (''Security mechanism must be '' @ [CHR 0x27] @ ''plain'' @ [CHR 0x27]
                            @ '', '' @ [CHR 0x27] @ ''tls'' @ [CHR 0x27] @ '' or ''
                            @ [CHR 0x27] @ ''tls_to_plain'' @ [CHR 0x27]
                            @ '' for ThriftTransport, got '' @ securityMechToString ext (ap_securityMech ap))), s')"
proof -
  obtain ap' w' where cs: "compressionSetup ext name server ap (proxy s) = (ap', w')"
    by (cases "compressionSetup ext name server ap (proxy s)")
  from compressionSetup_fields [OF cs] assms(2,3)
  have "ap_protocol ap' = mc_thrift_protocol" "ap_securityMech ap' = ap_securityMech ap"
       "ap_securityMech ap' \<noteq> NONE" "ap_securityMech ap' \<noteq> TLS" "ap_securityMech ap' \<noteq> TLS_TO_PLAINTEXT"
    by auto
  with assms(1) cs show ?thesis
    by (simp add: makeServer_def)
qed

lemma makeServer_thrift_accepted:
  assumes "effectiveAccessPoint ext st server = Some ap"
    and "ap_protocol ap = mc_thrift_protocol"
    and "ap_securityMech ap \<in> {NONE, TLS, TLS_TO_PLAINTEXT}"
  shows "\<exists>pd s'. makeServer ext factory name st psi i (DString server) s
           = (Inr (makeDestinationRoute ext ThriftTransport pd name i psi (timeout st)
                     (keepRoutingPrefix st)), s')"
proof -
  obtain ap' w' where cs: "compressionSetup ext name server ap (proxy s) = (ap', w')"
    by (cases "compressionSetup ext name server ap (proxy s)")
  from compressionSetup_fields [OF cs] assms(2,3)
  have "ap_protocol ap' = mc_thrift_protocol"
       "ap_securityMech ap' = NONE \<or> ap_securityMech ap' = TLS \<or> ap_securityMech ap' = TLS_TO_PLAINTEXT"
    by auto
  with assms(1) cs show ?thesis
    by (auto simp: makeServer_def createDestinationRoute_def split: prod.splits)
qed

lemma makeServer_other_protocol:
  assumes "effectiveAccessPoint ext st server = Some ap"
    and "ap_protocol ap \<noteq> mc_thrift_protocol"
  shows "\<exists>pd s'. makeServer ext factory name st psi i (DString server) s
           = (Inr (makeDestinationRoute ext AsyncMcClient pd name i psi (timeout st)
                     (keepRoutingPrefix st)), s')"
proof -
  obtain ap' w' where cs: "compressionSetup ext name server ap (proxy s) = (ap', w')"
    by (cases "compressionSetup ext name server ap (proxy s)")
  from compressionSetup_fields [OF cs] assms(2)
  have "ap_protocol ap' \<noteq> mc_thrift_protocol"
    by auto
  with assms(1) cs show ?thesis
    by (auto simp: makeServer_def createDestinationRoute_def split: prod.splits)
qed

lemma makeServers_thrift_mech:
  assumes "makeServers ext factory name st psi i servers ds s = (Inr out, s')"
    and "DString server \<in> set servers"
    and "effectiveAccessPoint ext st server = Some ap"
    and "ap_protocol ap = mc_thrift_protocol"
  shows "ap_securityMech ap \<in> {NONE, TLS, TLS_TO_PLAINTEXT}"
  using assms(1,2)
proof (induction servers arbitrary: i ds s)
  case Nil
  then show ?case by simp
next
  case (Cons x rest)
  from Cons.prems(1) obtain rh s1 where
    step: "makeServer ext factory name st psi i x s = (Inr rh, s1)"
    and tl: "makeServers ext factory name st psi (Suc i) rest (ds @ [rh]) s1 = (Inr out, s')"
    by (auto split: sum.splits prod.splits)
  show ?case
  proof (cases "x = DString server")
    case True
    show ?thesis
    proof (rule ccontr)
      assume "ap_securityMech ap \<notin> {NONE, TLS, TLS_TO_PLAINTEXT}"
      from makeServer_thrift_refused [OF assms(3,4) this, of factory name psi i s] step True
      show False by auto
    qed
  next
    case False
    with Cons.prems(2) have "DString server \<in> set rest" by simp
    from Cons.IH [OF tl this] show ?thesis .
  qed
qed

lemma buildPool_success_servers:
  assumes "buildPool ext factory jpool region cluster s = (Inr ds, s')"
    and "poolSettings ext (pj_json jpool) region cluster = Inr st"
    and "checkServers (pj_json jpool) = Inr servers"
  shows "\<exists>out s1. makeServers ext factory (pj_name jpool) st
                    (getStatsEnabledPoolIndex ext (pj_name jpool)) 0 servers [] s = (Inr out, s1)"
  using assms
  by (auto simp: buildPool_def catchLogic_def bindS_def liftE_def
           split: sum.splits prod.splits option.splits)

lemma buildPool_error_shape:
  assumes "buildPool ext factory jpool region cluster s = (Inl e, s')"
  shows "e = NullDeref \<or> (\<exists>m. e = LogicError (''Pool '' @ pj_name jpool @ '': '' @ m))"
proof -
  from assms obtain e0 where "e = rethrowLogic (''Pool '' @ pj_name jpool @ '': '') e0"
    by (auto simp: buildPool_def catchLogic_def split: sum.splits prod.splits)
  then show ?thesis by (cases e0) auto
qed


text \<open>
  C4. Let \<open>server\<close> be a plain entry of the servers of a pool that is not cached, and
  \<open>ap\<close> its access point after the within-DC/cross-DC overrides. If \<open>ap\<close> speaks
  thrift and its mechanism is none of \<^verbatim>\<open>NONE\<close>, \<^verbatim>\<open>TLS\<close>, \<^verbatim>\<open>TLS_TO_PLAINTEXT\<close>, the
  entry is refused with the message of line 313 and \<^verbatim>\<open>makePool\<close> fails with an error
  that carries the pool name. With one of the three mechanisms the entry gives a
  destination over \<^verbatim>\<open>ThriftTransport\<close>. With any other protocol the entry gives a
  destination over \<^verbatim>\<open>AsyncMcClient\<close>, whatever the mechanism.
\<close>

theorem makePool_thrift_security_mech:
  assumes "pools s (pj_name jpool) = None"
    and "localityField ext (pj_name jpool) (pj_json jpool) ''region'' ''pool_region'' s
           = (Inr region, s1)"
    and "localityField ext (pj_name jpool) (pj_json jpool) ''cluster'' ''pool_cluster'' s1
           = (Inr cluster, s2)"
    and "poolSettings ext (pj_json jpool) region cluster = Inr st"
    and "checkServers (pj_json jpool) = Inr servers"
    and "DString server \<in> set servers"
    and "effectiveAccessPoint ext st server = Some ap"
  shows "(ap_protocol ap = mc_thrift_protocol
            \<and> ap_securityMech ap \<notin> {NONE, TLS, TLS_TO_PLAINTEXT} \<longrightarrow>
           (\<exists>e s'. makePool ext factory jpool s = (Inl e, s')
                \<and> (e = NullDeref
                    \<or> (\<exists>m. e = LogicError (''Pool '' @ pj_name jpool @ '': '' @ m))))
           \<and> (\<exists>t'. makeServer ext factory (pj_name jpool) st psi i (DString server) t
                 = (Inl (LogicError
                      (''Security mechanism must be '' @ [CHR 0x27] @ ''plain'' @ [CHR 0x27]
                         @ '', '' @ [CHR 0x27] @ ''tls'' @ [CHR 0x27] @ '' or ''
                         @ [CHR 0x27] @ ''tls_to_plain'' @ [CHR 0x27]
                         @ '' for ThriftTransport, got ''
                         @ securityMechToString ext (ap_securityMech ap))), t')))
       \<and> (ap_protocol ap = mc_thrift_protocol
            \<and> ap_securityMech ap \<in> {NONE, TLS, TLS_TO_PLAINTEXT} \<longrightarrow>
           (\<exists>pd t'. makeServer ext factory (pj_name jpool) st psi i (DString server) t
                 = (Inr (makeDestinationRoute ext ThriftTransport pd (pj_name jpool) i psi
                           (timeout st) (keepRoutingPrefix st)), t')))
       \<and> (ap_protocol ap \<noteq> mc_thrift_protocol \<longrightarrow>
           (\<exists>pd t'. makeServer ext factory (pj_name jpool) st psi i (DString server) t
                 = (Inr (makeDestinationRoute ext AsyncMcClient pd (pj_name jpool) i psi
                           (timeout st) (keepRoutingPrefix st)), t')))"
proof (intro conjI impI)
  assume bad: "ap_protocol ap = mc_thrift_protocol
            \<and> ap_securityMech ap \<notin> {NONE, TLS, TLS_TO_PLAINTEXT}"
  have mp: "makePool ext factory jpool s = buildPool ext factory jpool region cluster s2"
    using assms(1-3) by (rule makePool_uncached)
  obtain r s' where res: "buildPool ext factory jpool region cluster s2 = (r, s')"
    by (cases "buildPool ext factory jpool region cluster s2")
  show "\<exists>e s'. makePool ext factory jpool s = (Inl e, s')
                \<and> (e = NullDeref
                    \<or> (\<exists>m. e = LogicError (''Pool '' @ pj_name jpool @ '': '' @ m)))"
  proof (cases r)
    case (Inl e)
    with res buildPool_error_shape [of ext factory jpool region cluster s2 e s'] mp
    show ?thesis by auto
  next
    case (Inr ds)
    with res buildPool_success_servers [OF _ assms(4,5)]
    obtain out t1 where "makeServers ext factory (pj_name jpool) st
                    (getStatsEnabledPoolIndex ext (pj_name jpool)) 0 servers [] s2 = (Inr out, t1)"
      by blast
    from makeServers_thrift_mech [OF this assms(6,7)] bad show ?thesis by simp
  qed
  from bad show "\<exists>t'. makeServer ext factory (pj_name jpool) st psi i (DString server) t
                 = (Inl (LogicError
                      (''Security mechanism must be '' @ [CHR 0x27] @ ''plain'' @ [CHR 0x27]
                         @ '', '' @ [CHR 0x27] @ ''tls'' @ [CHR 0x27] @ '' or ''
                         @ [CHR 0x27] @ ''tls_to_plain'' @ [CHR 0x27]
                         @ '' for ThriftTransport, got ''
                         @ securityMechToString ext (ap_securityMech ap))), t')"
    using makeServer_thrift_refused [OF assms(7)] by blast
next
  assume "ap_protocol ap = mc_thrift_protocol
            \<and> ap_securityMech ap \<in> {NONE, TLS, TLS_TO_PLAINTEXT}"
  then show "\<exists>pd t'. makeServer ext factory (pj_name jpool) st psi i (DString server) t
                 = (Inr (makeDestinationRoute ext ThriftTransport pd (pj_name jpool) i psi
                           (timeout st) (keepRoutingPrefix st)), t')"
    using makeServer_thrift_accepted [OF assms(7)] by blast
next
  assume "ap_protocol ap \<noteq> mc_thrift_protocol"
  then show "\<exists>pd t'. makeServer ext factory (pj_name jpool) st psi i (DString server) t
                 = (Inr (makeDestinationRoute ext AsyncMcClient pd (pj_name jpool) i psi
                           (timeout st) (keepRoutingPrefix st)), t')"
    using makeServer_other_protocol [OF assms(7)] by blast
qed

lemma mechPool_hyps:
  "pools emptyProvider (pj_name (mechPool pr m)) = None"
  "localityField secureExternals (pj_name (mechPool pr m)) (pj_json (mechPool pr m))
     ''region'' ''pool_region'' emptyProvider = (Inr [], emptyProvider)"
  "localityField secureExternals (pj_name (mechPool pr m)) (pj_json (mechPool pr m))
     ''cluster'' ''pool_cluster'' emptyProvider = (Inr [], emptyProvider)"
  "checkServers (pj_json (mechPool pr m)) = Inr [DString ''local1:11211'']"
  "DString ''local1:11211'' \<in> set [DString ''local1:11211'']"
  by (simp_all add: model_defs test_defs)

lemma mechPool_settings:
  "poolSettings secureExternals (pj_json (mechPool ''thrift'' ''fizz'')) [] []
     = Inr (settingsOf 1000 1000 mc_thrift_protocol (OtherMech 0))"
  "poolSettings secureExternals (pj_json (mechPool ''Thrift'' ''ssl'')) [] []
     = Inr (settingsOf 1000 1000 mc_thrift_protocol TLS)"
  "poolSettings secureExternals (pj_json (mechPool ''caret'' ''fizz'')) [] []
     = Inr (settingsOf 1000 1000 mc_caret_protocol (OtherMech 0))"
  by (simp_all add: model_defs test_defs equalStr_def asciiLower_def)

lemma mechPool_accessPoint:
  "effectiveAccessPoint secureExternals (settingsOf t ct pr m) ''local1:11211''
     = Some (mechAccessPoint pr m)"
  by (simp add: model_defs test_defs)

theorem makePool_thrift_security_mech_witness:
  "(\<exists>e s'. makePool secureExternals testFactory (mechPool ''thrift'' ''fizz'') emptyProvider
              = (Inl e, s')
         \<and> (e = NullDeref \<or> (\<exists>m. e = LogicError (''Pool T: '' @ m))))
   \<and> (\<exists>pd t'. makeServer secureExternals testFactory ''T''
                  (settingsOf 1000 1000 mc_thrift_protocol TLS) (- 1) 0
                  (DString ''local1:11211'') emptyProvider
              = (Inr (makeDestinationRoute secureExternals ThriftTransport pd ''T'' 0 (- 1)
                        1000 False), t'))
   \<and> (\<exists>pd t'. makeServer secureExternals testFactory ''T''
                  (settingsOf 1000 1000 mc_caret_protocol (OtherMech 0)) (- 1) 0
                  (DString ''local1:11211'') emptyProvider
              = (Inr (makeDestinationRoute secureExternals AsyncMcClient pd ''T'' 0 (- 1)
                        1000 False), t'))
   \<and> fst (makePool secureExternals testFactory (mechPool ''Thrift'' ''ssl'') emptyProvider)
       = Inr [Some (DestinationRoute ThriftTransport (mechAccessPoint mc_thrift_protocol TLS)
                      ''T'' 0 (- 1) 1000 False)]
   \<and> fst (makePool secureExternals testFactory (mechPool ''caret'' ''fizz'') emptyProvider)
       = Inr [Some (DestinationRoute AsyncMcClient
                      (mechAccessPoint mc_caret_protocol (OtherMech 0))
                      ''T'' 0 (- 1) 1000 False)]"
proof -
  have n: "pj_name (mechPool pr m) = ''T''" for pr m
    by (simp add: mechPool_def)
  have t: "timeout (settingsOf 1000 1000 pr m) = 1000"
          "keepRoutingPrefix (settingsOf 1000 1000 pr m) = False" for pr m
    by (simp_all add: settingsOf_def)
  have f: "ap_protocol (mechAccessPoint pr m) = pr"
          "ap_securityMech (mechAccessPoint pr m) = m" for pr m
    by (simp_all add: mechAccessPoint_def)
  note bad = makePool_thrift_security_mech
    [OF mechPool_hyps(1-3) mechPool_settings(1) mechPool_hyps(4,5) mechPool_accessPoint,
     of testFactory]
  note tls = makePool_thrift_security_mech
    [OF mechPool_hyps(1-3) mechPool_settings(2) mechPool_hyps(4,5) mechPool_accessPoint,
     of testFactory "- 1" 0 emptyProvider]
  note caret = makePool_thrift_security_mech
    [OF mechPool_hyps(1-3) mechPool_settings(3) mechPool_hyps(4,5) mechPool_accessPoint,
     of testFactory "- 1" 0 emptyProvider]
  have 1: "\<exists>e s'. makePool secureExternals testFactory (mechPool ''thrift'' ''fizz'')
                     emptyProvider = (Inl e, s')
             \<and> (e = NullDeref \<or> (\<exists>m. e = LogicError (''Pool T: '' @ m)))"
    using bad by (simp add: n f)
  have 2: "\<exists>pd t'. makeServer secureExternals testFactory ''T''
                  (settingsOf 1000 1000 mc_thrift_protocol TLS) (- 1) 0
                  (DString ''local1:11211'') emptyProvider
              = (Inr (makeDestinationRoute secureExternals ThriftTransport pd ''T'' 0 (- 1)
                        1000 False), t')"
    using tls by (simp add: n f t)
  have 3: "\<exists>pd t'. makeServer secureExternals testFactory ''T''
                  (settingsOf 1000 1000 mc_caret_protocol (OtherMech 0)) (- 1) 0
                  (DString ''local1:11211'') emptyProvider
              = (Inr (makeDestinationRoute secureExternals AsyncMcClient pd ''T'' 0 (- 1)
                        1000 False), t')"
    using caret by (simp add: n f t)
  have 4: "fst (makePool secureExternals testFactory (mechPool ''Thrift'' ''ssl'') emptyProvider)
       = Inr [Some (DestinationRoute ThriftTransport (mechAccessPoint mc_thrift_protocol TLS)
                      ''T'' 0 (- 1) 1000 False)]"
    by (simp add: model_defs test_defs equalStr_def asciiLower_def)
  have 5: "fst (makePool secureExternals testFactory (mechPool ''caret'' ''fizz'') emptyProvider)
       = Inr [Some (DestinationRoute AsyncMcClient
                      (mechAccessPoint mc_caret_protocol (OtherMech 0))
                      ''T'' 0 (- 1) 1000 False)]"
    by (simp add: model_defs test_defs equalStr_def asciiLower_def)
  from 1 2 3 4 5 show ?thesis by blast
qed

subsection \<open>Servers and host names\<close>

lemma localityField_logs:
  assumes "localityField ext name json key label s = (r, s')"
  shows "\<exists>msgs. s' = s\<lparr>proxy := foldl (\<lambda>w m. logFailure ext kInvalidConfig m w) (proxy s) msgs\<rparr>"
proof (cases "s' = s")
  case True
  then have "s' = s\<lparr>proxy := foldl (\<lambda>w m. logFailure ext kInvalidConfig m w) (proxy s) []\<rparr>"
    by simp
  then show ?thesis by blast
next
  case False
  with assms have
    "s' = s\<lparr>proxy := foldl (\<lambda>w m. logFailure ext kInvalidConfig m w) (proxy s)
                       [''Pool '' @ name @ '': '' @ label @ '' is not a string'']\<rparr>"
    by (auto simp: localityField_def split: sum.splits option.splits if_splits)
  then show ?thesis by blast
qed

lemma checkServers_hostnames:
  assumes "get_ptr json ''servers'' = Inr (Some (DArray servers))"
    and "get_ptr json ''hostnames'' = Inr (Some (DArray hostnames))"
    and "length hostnames \<noteq> length servers"
  shows "checkServers json =
           Inl (LogicError (''hostnames expected to be of the same size as servers, expected ''
                              @ show_nat (length servers) @ '', got ''
                              @ show_nat (length hostnames)))"
  using assms by (simp add: checkServers_def bindE_def checkLogic_def)

text \<open>
  C8. For a pool that is not cached, whose \<^verbatim>\<open>servers\<close> and \<^verbatim>\<open>hostnames\<close> are arrays of
  different lengths, \<^verbatim>\<open>makePool\<close> fails: with the error about the sizes, under the
  pool's name, unless an earlier setting of the pool is already in error. The state
  it leaves is the one in which the guarded block was entered, which differs from the
  initial state by logged failures at most: no access point is registered, no
  destination is requested, no handle is made, no collaborator is called.
\<close>

theorem makePool_hostnames_mismatch:
  assumes "pools s (pj_name jpool) = None"
    and "localityField ext (pj_name jpool) (pj_json jpool) ''region'' ''pool_region'' s
           = (Inr region, s1)"
    and "localityField ext (pj_name jpool) (pj_json jpool) ''cluster'' ''pool_cluster'' s1
           = (Inr cluster, s2)"
    and "get_ptr (pj_json jpool) ''servers'' = Inr (Some (DArray servers))"
    and "get_ptr (pj_json jpool) ''hostnames'' = Inr (Some (DArray hostnames))"
    and "length hostnames \<noteq> length servers"
  shows "makePool ext factory jpool s =
           (Inl (rethrowLogic (''Pool '' @ pj_name jpool @ '': '')
                   (case poolSettings ext (pj_json jpool) region cluster of
                      Inl e \<Rightarrow> e
                    | Inr _ \<Rightarrow>
                        LogicError
                          (''hostnames expected to be of the same size as servers, expected ''
                             @ show_nat (length servers) @ '', got ''
                             @ show_nat (length hostnames)))),
            s2)
         \<and> (\<exists>msgs. s2 = s\<lparr>proxy := foldl (\<lambda>w m. logFailure ext kInvalidConfig m w)
                                        (proxy s) msgs\<rparr>)"
proof
  have mp: "makePool ext factory jpool s = buildPool ext factory jpool region cluster s2"
    using assms(1-3) by (rule makePool_uncached)
  show "makePool ext factory jpool s =
           (Inl (rethrowLogic (''Pool '' @ pj_name jpool @ '': '')
                   (case poolSettings ext (pj_json jpool) region cluster of
                      Inl e \<Rightarrow> e
                    | Inr _ \<Rightarrow>
                        LogicError
                          (''hostnames expected to be of the same size as servers, expected ''
                             @ show_nat (length servers) @ '', got ''
                             @ show_nat (length hostnames)))),
            s2)"
    unfolding mp
    by (simp add: buildPool_def catchLogic_def bindS_def liftE_def
                  checkServers_hostnames [OF assms(4-6)] split: sum.splits)
  from localityField_logs [OF assms(2)] obtain m1 where
    a: "s1 = s\<lparr>proxy := foldl (\<lambda>w m. logFailure ext kInvalidConfig m w) (proxy s) m1\<rparr>"
    by blast
  from localityField_logs [OF assms(3)] obtain m2 where
    b: "s2 = s1\<lparr>proxy := foldl (\<lambda>w m. logFailure ext kInvalidConfig m w) (proxy s1) m2\<rparr>"
    by blast
  from a b have
    "s2 = s\<lparr>proxy := foldl (\<lambda>w m. logFailure ext kInvalidConfig m w) (proxy s) (m1 @ m2)\<rparr>"
    by simp
  then show "\<exists>msgs. s2 = s\<lparr>proxy := foldl (\<lambda>w m. logFailure ext kInvalidConfig m w)
                                        (proxy s) msgs\<rparr>"
    by blast
qed

theorem makePool_hostnames_mismatch_witness:
  "makePool secureExternals testFactory poolH emptyProvider
     = (Inl (LogicError (''Pool H: hostnames expected to be of the same size as servers, ''
                           @ ''expected 3, got 2'')),
        emptyProvider)
   \<and> length [DString ''h1'', DString ''h2'']
       \<noteq> length [DString ''h1:1'', DString ''h2:1'', DString ''h3:1'']
   \<and> destinations (proxy emptyProvider) = []"
proof -
  have 1: "pools emptyProvider (pj_name poolH) = None"
    by (simp add: test_defs)
  have 2: "localityField secureExternals (pj_name poolH) (pj_json poolH)
             ''region'' ''pool_region'' emptyProvider = (Inr [], emptyProvider)"
    by (simp add: model_defs test_defs)
  have 3: "localityField secureExternals (pj_name poolH) (pj_json poolH)
             ''cluster'' ''pool_cluster'' emptyProvider = (Inr [], emptyProvider)"
    by (simp add: model_defs test_defs)
  have 4: "get_ptr (pj_json poolH) ''servers''
             = Inr (Some (DArray [DString ''h1:1'', DString ''h2:1'', DString ''h3:1'']))"
    by (simp add: test_defs)
  have 5: "get_ptr (pj_json poolH) ''hostnames''
             = Inr (Some (DArray [DString ''h1'', DString ''h2'']))"
    by (simp add: test_defs)
  have 6: "length [DString ''h1'', DString ''h2'']
             \<noteq> length [DString ''h1:1'', DString ''h2:1'', DString ''h3:1'']"
    by simp
  have 7: "poolSettings secureExternals (pj_json poolH) [] []
             = Inr (settingsOf 1000 1000 mc_ascii_protocol NONE)"
    by (simp add: model_defs test_defs)
  have 8: "show_nat (Suc (Suc (Suc 0))) = ''3''" "show_nat (Suc (Suc 0)) = ''2''"
    by (simp_all add: show_nat.simps digit_def)
  have 9: "pj_name poolH = ''H''"
    by (simp add: poolH_def)
  from makePool_hostnames_mismatch [OF 1 2 3 4 5 6, of testFactory] 6
  show ?thesis
    by (simp add: 7 8 9 emptyProvider_def)
qed

subsection \<open>Failure leaves the pool cache alone\<close>

lemma createDestinationRoute_pools:
  "createDestinationRoute ext tr ap t ct qc qp n i psi krp s = (r, s') \<Longrightarrow> pools s' = pools s"
  by (auto simp: createDestinationRoute_def split: prod.splits)

lemma makeServer_pools:
  assumes "makeServer ext factory name st psi i server s = (r, s')"
    and "\<forall>j t. pools (snd (factory_create factory j t)) name = pools t name"
  shows "pools s' name = pools s name"
proof (cases "isObject server")
  case True
  with assms(1) have "factory_create factory server s = (r, s')"
    by (simp add: makeServer_def)
  with assms(2) [rule_format, of server s] show ?thesis by simp
next
  case False
  with assms(1) show ?thesis
    by (auto simp: makeServer_def Let_def split: if_splits option.splits prod.splits
             dest!: createDestinationRoute_pools)
qed

lemma makeServers_pools:
  assumes "makeServers ext factory name st psi i servers ds s = (r, s')"
    and "\<forall>j t. pools (snd (factory_create factory j t)) name = pools t name"
  shows "pools s' name = pools s name"
  using assms(1)
proof (induction servers arbitrary: i ds s)
  case Nil
  then show ?case by simp
next
  case (Cons x rest)
  obtain r1 s1 where step: "makeServer ext factory name st psi i x s = (r1, s1)"
    by (cases "makeServer ext factory name st psi i x s")
  from makeServer_pools [OF step assms(2)] have p1: "pools s1 name = pools s name" .
  show ?case
  proof (cases r1)
    case (Inl e)
    with Cons.prems step have "s' = s1" by simp
    with p1 show ?thesis by simp
  next
    case (Inr rh)
    with Cons.prems step have
      "makeServers ext factory name st psi (Suc i) rest (ds @ [rh]) s1 = (r, s')" by simp
    from Cons.IH [OF this] p1 show ?thesis by simp
  qed
qed

lemma buildPool_error_pools:
  assumes "buildPool ext factory jpool region cluster s = (Inl e, s')"
    and "\<forall>j t. pools (snd (factory_create factory j t)) (pj_name jpool) = pools t (pj_name jpool)"
  shows "pools s' (pj_name jpool) = pools s (pj_name jpool)"
proof (cases "poolSettings ext (pj_json jpool) region cluster")
  case (Inl a)
  with assms(1) show ?thesis
    by (simp add: buildPool_def catchLogic_def bindS_def liftE_def)
next
  case st: (Inr st)
  show ?thesis
  proof (cases "checkServers (pj_json jpool)")
    case (Inl a)
    with st assms(1) show ?thesis
      by (simp add: buildPool_def catchLogic_def bindS_def liftE_def)
  next
    case (Inr servers)
    obtain r1 s1 where ms: "makeServers ext factory (pj_name jpool) st
                 (getStatsEnabledPoolIndex ext (pj_name jpool)) 0 servers [] s = (r1, s1)"
      by (cases "makeServers ext factory (pj_name jpool) st
                 (getStatsEnabledPoolIndex ext (pj_name jpool)) 0 servers [] s")
    from makeServers_pools [OF ms assms(2)] have p: "pools s1 (pj_name jpool) = pools s (pj_name jpool)" .
    from assms(1) st Inr ms have "s' = s1"
      by (auto simp: buildPool_def catchLogic_def bindS_def liftE_def
               split: sum.splits option.splits)
    with p show ?thesis by simp
  qed
qed

text \<open>
  C9. If \<^verbatim>\<open>makePool\<close> fails for a pool, then \<^verbatim>\<open>pools_\<close> has no entry under the pool's
  name, before and after, so that the next call for that name runs the construction
  again from the start. The handles for structured servers come from the factory,
  which can reach the provider: it is assumed not to touch the entry of this name.
\<close>

theorem makePool_error_not_cached:
  assumes "makePool ext factory jpool s = (Inl e, s')"
    and "\<forall>j t. pools (snd (factory_create factory j t)) (pj_name jpool) = pools t (pj_name jpool)"
  shows "pools s' (pj_name jpool) = pools s (pj_name jpool)
         \<and> pools s' (pj_name jpool) = None
         \<and> makePool ext' factory' jpool s' = constructPool ext' factory' jpool s'"
proof -
  from assms(1) have none: "pools s (pj_name jpool) = None"
    by (auto simp: makePool_def split: option.splits)
  with assms(1) have cp: "constructPool ext factory jpool s = (Inl e, s')"
    by (simp add: makePool_def)
  have "pools s' (pj_name jpool) = pools s (pj_name jpool)"
  proof -
    obtain r1 s1 where l1: "localityField ext (pj_name jpool) (pj_json jpool) ''region'' ''pool_region'' s = (r1, s1)"
      by (cases "localityField ext (pj_name jpool) (pj_json jpool) ''region'' ''pool_region'' s")
    show ?thesis
    proof (cases r1)
      case (Inl a)
      with cp l1 have "s' = s1" by (simp add: constructPool_def bindS_def)
      with localityField_pools [OF l1] show ?thesis by simp
    next
      case region: (Inr region)
      obtain r2 s2 where l2: "localityField ext (pj_name jpool) (pj_json jpool) ''cluster'' ''pool_cluster'' s1 = (r2, s2)"
        by (cases "localityField ext (pj_name jpool) (pj_json jpool) ''cluster'' ''pool_cluster'' s1")
      show ?thesis
      proof (cases r2)
        case (Inl a)
        with cp l1 l2 region have "s' = s2" by (simp add: constructPool_def bindS_def)
        with localityField_pools [OF l1] localityField_pools [OF l2] show ?thesis by simp
      next
        case (Inr cluster)
        with cp l1 l2 region have "buildPool ext factory jpool region cluster s2 = (Inl e, s')"
          by (simp add: constructPool_def bindS_def)
        from buildPool_error_pools [OF this assms(2)]
          localityField_pools [OF l1] localityField_pools [OF l2]
        show ?thesis by simp
      qed
    qed
  qed
  with none show ?thesis by (simp add: makePool_def)
qed

theorem makePool_error_not_cached_witness:
  "(\<forall>j t. pools (snd (factory_create testFactory j t)) ''T'' = pools t ''T'')
   \<and> makePool secureExternals testFactory (mechPool ''thrift'' ''fizz'') emptyProvider
       = (Inl (LogicError (''Pool T: Security mechanism must be '' @ [CHR 0x27] @ ''plain''
                 @ [CHR 0x27] @ '', '' @ [CHR 0x27] @ ''tls'' @ [CHR 0x27] @ '' or ''
                 @ [CHR 0x27] @ ''tls_to_plain'' @ [CHR 0x27]
                 @ '' for ThriftTransport, got fizz'')),
          emptyProvider\<lparr>accessPoints :=
            [''T'' \<mapsto> [mechAccessPoint mc_thrift_protocol (OtherMech 0)]]\<rparr>)
   \<and> pools (emptyProvider\<lparr>accessPoints :=
               [''T'' \<mapsto> [mechAccessPoint mc_thrift_protocol (OtherMech 0)]]\<rparr>) ''T'' = None
   \<and> makePool secureExternals testFactory (mechPool ''thrift'' ''fizz'')
        (emptyProvider\<lparr>accessPoints :=
               [''T'' \<mapsto> [mechAccessPoint mc_thrift_protocol (OtherMech 0)]]\<rparr>)
     = constructPool secureExternals testFactory (mechPool ''thrift'' ''fizz'')
        (emptyProvider\<lparr>accessPoints :=
               [''T'' \<mapsto> [mechAccessPoint mc_thrift_protocol (OtherMech 0)]]\<rparr>)"
proof -
  have frame: "\<forall>j t. pools (snd (factory_create testFactory j t))
                        (pj_name (mechPool ''thrift'' ''fizz''))
                      = pools t (pj_name (mechPool ''thrift'' ''fizz''))"
    by (simp add: testFactory_def)
  have run: "makePool secureExternals testFactory (mechPool ''thrift'' ''fizz'') emptyProvider
       = (Inl (LogicError (''Pool T: Security mechanism must be '' @ [CHR 0x27] @ ''plain''
                 @ [CHR 0x27] @ '', '' @ [CHR 0x27] @ ''tls'' @ [CHR 0x27] @ '' or ''
                 @ [CHR 0x27] @ ''tls_to_plain'' @ [CHR 0x27]
                 @ '' for ThriftTransport, got fizz'')),
          emptyProvider\<lparr>accessPoints :=
            [''T'' \<mapsto> [mechAccessPoint mc_thrift_protocol (OtherMech 0)]]\<rparr>)"
    by (simp add: model_defs test_defs equalStr_def asciiLower_def)
  from makePool_error_not_cached [OF run frame, of secureExternals testFactory] run frame
  show ?thesis
    by (simp add: mechPool_def)
qed

subsection \<open>Timeouts by locality\<close>

lemma poolSettings_timeouts:
  "poolSettings ext json region cluster = Inr st \<Longrightarrow>
   resolveTimeouts ext json region cluster = Inr (timeout st, connectTimeout st)"
  by (auto simp: poolSettings_def bindE_def split: sum.splits prod.splits)

lemma poolSettings_timeout_tiers:
  assumes "poolSettings ext json region cluster = Inr st"
    and "region \<noteq> []" and "cluster \<noteq> []"
  shows "\<exists>prior.
           (case get_ptr json ''server_timeout'' of
              Inr None \<Rightarrow> prior = server_timeout_ms (opts ext)
            | Inr (Some j) \<Rightarrow> parseTimeout ext j ''server_timeout'' = Inr prior
            | Inl _ \<Rightarrow> False)
         \<and> (region = default_route_region (opts ext) \<and> cluster = default_route_cluster (opts ext)
              \<longrightarrow> timeout st = (if within_cluster_timeout_ms (opts ext) \<noteq> 0
                                then within_cluster_timeout_ms (opts ext) else prior))
         \<and> (region = default_route_region (opts ext) \<and> cluster \<noteq> default_route_cluster (opts ext)
              \<longrightarrow> timeout st = (if cross_cluster_timeout_ms (opts ext) \<noteq> 0
                                then cross_cluster_timeout_ms (opts ext) else prior))
         \<and> (region \<noteq> default_route_region (opts ext)
              \<longrightarrow> timeout st = (if cross_region_timeout_ms (opts ext) \<noteq> 0
                                then cross_region_timeout_ms (opts ext) else prior))"
proof -
  from assms(1) have rt: "resolveTimeouts ext json region cluster = Inr (timeout st, connectTimeout st)"
    by (rule poolSettings_timeouts)
  then obtain prior where
    p: "optField json ''server_timeout'' (server_timeout_ms (opts ext))
          (\<lambda>j. parseTimeout ext j ''server_timeout'') = Inr prior"
    by (auto simp: resolveTimeouts_def bindE_def split: sum.splits)
  from p have c: "(case get_ptr json ''server_timeout'' of
              Inr None \<Rightarrow> prior = server_timeout_ms (opts ext)
            | Inr (Some j) \<Rightarrow> parseTimeout ext j ''server_timeout'' = Inr prior
            | Inl _ \<Rightarrow> False)"
    by (auto simp: optField_def bindE_def split: sum.splits option.splits)
  from rt p assms(2,3) have
    "timeout st =
       (if region = default_route_region (opts ext) \<and> cluster = default_route_cluster (opts ext)
        then (if within_cluster_timeout_ms (opts ext) \<noteq> 0
              then within_cluster_timeout_ms (opts ext) else prior)
        else if region = default_route_region (opts ext)
        then (if cross_cluster_timeout_ms (opts ext) \<noteq> 0
              then cross_cluster_timeout_ms (opts ext) else prior)
        else (if cross_region_timeout_ms (opts ext) \<noteq> 0
              then cross_region_timeout_ms (opts ext) else prior))"
    by (auto simp: resolveTimeouts_def bindE_def split: sum.splits if_splits)
  with c show ?thesis by (intro exI [of _ prior]) auto
qed

lemma localityField_string:
  assumes "get_ptr json key = Inr (Some (DString x))"
  shows "localityField ext name json key label s = (Inr x, s)"
  using assms by (simp add: localityField_def)

lemma makeServer_string_handle:
  assumes "makeServer ext factory name st psi i (DString server) s = (Inr rh, s')"
  shows "\<exists>tr pd. rh = makeDestinationRoute ext tr pd name i psi (timeout st)
                         (keepRoutingPrefix st)"
  using assms
  by (auto simp: makeServer_def createDestinationRoute_def Let_def
           split: option.splits prod.splits if_splits)

lemma makeServers_handles:
  assumes "makeServers ext factory name st psi i0 servers acc s = (Inr out, s')"
  shows "length out = length acc + length servers
         \<and> (\<forall>k < length acc. out ! k = acc ! k)
         \<and> (\<forall>k < length servers. \<forall>server. servers ! k = DString server \<longrightarrow>
               (\<exists>tr pd. out ! (length acc + k)
                  = makeDestinationRoute ext tr pd name (i0 + k) psi (timeout st)
                      (keepRoutingPrefix st)))"
  using assms
proof (induction servers arbitrary: i0 acc s)
  case Nil
  then show ?case by simp
next
  case (Cons x rest)
  from Cons.prems obtain rh s1 where
    step: "makeServer ext factory name st psi i0 x s = (Inr rh, s1)"
    and tl: "makeServers ext factory name st psi (Suc i0) rest (acc @ [rh]) s1 = (Inr out, s')"
    by (auto split: sum.splits prod.splits)
  from Cons.IH [OF tl] have
    len: "length out = length (acc @ [rh]) + length rest"
    and keep: "\<forall>k < length (acc @ [rh]). out ! k = (acc @ [rh]) ! k"
    and new: "\<forall>k < length rest. \<forall>server. rest ! k = DString server \<longrightarrow>
               (\<exists>tr pd. out ! (length (acc @ [rh]) + k)
                  = makeDestinationRoute ext tr pd name (Suc i0 + k) psi (timeout st)
                      (keepRoutingPrefix st))"
    by blast+
  have a: "length out = length acc + length (x # rest)" using len by simp
  have b: "\<forall>k < length acc. out ! k = acc ! k"
  proof (intro allI impI)
    fix k assume "k < length acc"
    with keep have "out ! k = (acc @ [rh]) ! k" by simp
    with \<open>k < length acc\<close> show "out ! k = acc ! k" by (simp add: nth_append)
  qed
  have c: "\<forall>k < length (x # rest). \<forall>server. (x # rest) ! k = DString server \<longrightarrow>
               (\<exists>tr pd. out ! (length acc + k)
                  = makeDestinationRoute ext tr pd name (i0 + k) psi (timeout st)
                      (keepRoutingPrefix st))"
  proof (intro allI impI)
    fix k server
    assume k: "k < length (x # rest)" and sv: "(x # rest) ! k = DString server"
    show "\<exists>tr pd. out ! (length acc + k)
                  = makeDestinationRoute ext tr pd name (i0 + k) psi (timeout st)
                      (keepRoutingPrefix st)"
    proof (cases k)
      case 0
      with sv have "x = DString server" by simp
      with step makeServer_string_handle obtain tr pd where
        "rh = makeDestinationRoute ext tr pd name i0 psi (timeout st) (keepRoutingPrefix st)"
        by blast
      moreover from keep have "out ! length acc = rh" by (simp add: nth_append)
      ultimately show ?thesis using 0 by auto
    next
      case (Suc k')
      with k sv have "k' < length rest" "rest ! k' = DString server" by simp_all
      with new obtain tr pd where
        "out ! (length (acc @ [rh]) + k')
           = makeDestinationRoute ext tr pd name (Suc i0 + k') psi (timeout st)
               (keepRoutingPrefix st)"
        by blast
      with Suc show ?thesis by auto
    qed
  qed
  from a b c show ?case by blast
qed

lemma buildPool_success_handles:
  assumes "buildPool ext factory jpool region cluster s = (Inr ds, s')"
    and "pools s (pj_name jpool) = None"
    and "\<forall>j t. pools (snd (factory_create factory j t)) (pj_name jpool) = pools t (pj_name jpool)"
  shows "\<exists>st servers s1.
           poolSettings ext (pj_json jpool) region cluster = Inr st
           \<and> checkServers (pj_json jpool) = Inr servers
           \<and> makeServers ext factory (pj_name jpool) st
                (getStatsEnabledPoolIndex ext (pj_name jpool)) 0 servers [] s = (Inr ds, s1)"
proof -
  from assms(1) obtain st where st: "poolSettings ext (pj_json jpool) region cluster = Inr st"
    by (cases "poolSettings ext (pj_json jpool) region cluster")
       (auto simp: buildPool_def catchLogic_def bindS_def liftE_def)
  from assms(1) st obtain servers where sv: "checkServers (pj_json jpool) = Inr servers"
    by (cases "checkServers (pj_json jpool)")
       (auto simp: buildPool_def catchLogic_def bindS_def liftE_def)
  obtain r1 s1 where ms: "makeServers ext factory (pj_name jpool) st
                 (getStatsEnabledPoolIndex ext (pj_name jpool)) 0 servers [] s = (r1, s1)"
    by (cases "makeServers ext factory (pj_name jpool) st
                 (getStatsEnabledPoolIndex ext (pj_name jpool)) 0 servers [] s")
  from makeServers_pools [OF ms assms(3)] assms(2)
  have none: "pools s1 (pj_name jpool) = None" by simp
  from assms(1) st sv ms none have "r1 = Inr ds"
    by (cases r1) (auto simp: buildPool_def catchLogic_def bindS_def liftE_def)
  with st sv ms show ?thesis by blast
qed

lemma checkServers_array:
  assumes "checkServers json = Inr servers"
    and "get_ptr json ''servers'' = Inr (Some (DArray xs))"
  shows "servers = xs"
  using assms
  by (auto simp: checkServers_def bindE_def checkLogic_def split: sum.splits if_splits)


text \<open>
  C3. Take a pool that is not cached, whose \<^verbatim>\<open>region\<close> and \<^verbatim>\<open>cluster\<close> members are
  non-empty strings, and for which \<^verbatim>\<open>makePool\<close> succeeds. The handle of every plain
  server of the pool is a destination route made with a timeout \<open>resolved\<close> that is
  chosen by comparing the pool's region and cluster with those of
  \<^verbatim>\<open>opts.default_route\<close>: same region and same cluster, the within-cluster timeout; same
  region only, the cross-cluster timeout; otherwise the cross-region timeout. A tier
  whose option is 0 leaves the timeout \<open>prior\<close> resolved before: \<^verbatim>\<open>server_timeout\<close> of
  the pool when given, else \<^verbatim>\<open>opts.server_timeout_ms\<close>. The factory, which makes the
  handles of structured servers, is assumed to leave the \<^verbatim>\<open>pools_\<close> entry of this name
  alone.
\<close>

theorem makePool_timeout_locality:
  assumes "makePool ext factory jpool s = (Inr ds, s')"
    and "pools s (pj_name jpool) = None"
    and "\<forall>j t. pools (snd (factory_create factory j t)) (pj_name jpool) = pools t (pj_name jpool)"
    and "get_ptr (pj_json jpool) ''region'' = Inr (Some (DString region))"
    and "get_ptr (pj_json jpool) ''cluster'' = Inr (Some (DString cluster))"
    and "region \<noteq> []" and "cluster \<noteq> []"
    and "get_ptr (pj_json jpool) ''servers'' = Inr (Some (DArray servers))"
    and "i < length servers" and "servers ! i = DString server"
  shows "\<exists>prior resolved tr pd krp.
           (case get_ptr (pj_json jpool) ''server_timeout'' of
              Inr None \<Rightarrow> prior = server_timeout_ms (opts ext)
            | Inr (Some j) \<Rightarrow> parseTimeout ext j ''server_timeout'' = Inr prior
            | Inl _ \<Rightarrow> False)
         \<and> i < length ds
         \<and> ds ! i = makeDestinationRoute ext tr pd (pj_name jpool) i
                      (getStatsEnabledPoolIndex ext (pj_name jpool)) resolved krp
         \<and> (region = default_route_region (opts ext)
              \<and> cluster = default_route_cluster (opts ext)
              \<longrightarrow> resolved = (if within_cluster_timeout_ms (opts ext) \<noteq> 0
                              then within_cluster_timeout_ms (opts ext) else prior))
         \<and> (region = default_route_region (opts ext)
              \<and> cluster \<noteq> default_route_cluster (opts ext)
              \<longrightarrow> resolved = (if cross_cluster_timeout_ms (opts ext) \<noteq> 0
                              then cross_cluster_timeout_ms (opts ext) else prior))
         \<and> (region \<noteq> default_route_region (opts ext)
              \<longrightarrow> resolved = (if cross_region_timeout_ms (opts ext) \<noteq> 0
                              then cross_region_timeout_ms (opts ext) else prior))"
proof -
  have l1: "localityField ext (pj_name jpool) (pj_json jpool) ''region'' ''pool_region'' s
              = (Inr region, s)"
    using assms(4) by (rule localityField_string)
  have l2: "localityField ext (pj_name jpool) (pj_json jpool) ''cluster'' ''pool_cluster'' s
              = (Inr cluster, s)"
    using assms(5) by (rule localityField_string)
  from makePool_uncached [OF assms(2) l1 l2] assms(1)
  have bp: "buildPool ext factory jpool region cluster s = (Inr ds, s')" by simp
  from buildPool_success_handles [OF bp assms(2,3)] obtain st xs s1 where
    st: "poolSettings ext (pj_json jpool) region cluster = Inr st"
    and cs: "checkServers (pj_json jpool) = Inr xs"
    and ms: "makeServers ext factory (pj_name jpool) st
               (getStatsEnabledPoolIndex ext (pj_name jpool)) 0 xs [] s = (Inr ds, s1)"
    by blast
  from checkServers_array [OF cs assms(8)] have xs: "xs = servers" .
  from makeServers_handles [OF ms] xs assms(9,10) obtain tr pd where
    len: "i < length ds"
    and h: "ds ! i = makeDestinationRoute ext tr pd (pj_name jpool) i
                      (getStatsEnabledPoolIndex ext (pj_name jpool)) (timeout st)
                      (keepRoutingPrefix st)"
    by fastforce
  from poolSettings_timeout_tiers [OF st assms(6,7)] obtain prior where
    "(case get_ptr (pj_json jpool) ''server_timeout'' of
              Inr None \<Rightarrow> prior = server_timeout_ms (opts ext)
            | Inr (Some j) \<Rightarrow> parseTimeout ext j ''server_timeout'' = Inr prior
            | Inl _ \<Rightarrow> False)
         \<and> (region = default_route_region (opts ext)
              \<and> cluster = default_route_cluster (opts ext)
              \<longrightarrow> timeout st = (if within_cluster_timeout_ms (opts ext) \<noteq> 0
                              then within_cluster_timeout_ms (opts ext) else prior))
         \<and> (region = default_route_region (opts ext)
              \<and> cluster \<noteq> default_route_cluster (opts ext)
              \<longrightarrow> timeout st = (if cross_cluster_timeout_ms (opts ext) \<noteq> 0
                              then cross_cluster_timeout_ms (opts ext) else prior))
         \<and> (region \<noteq> default_route_region (opts ext)
              \<longrightarrow> timeout st = (if cross_region_timeout_ms (opts ext) \<noteq> 0
                              then cross_region_timeout_ms (opts ext) else prior))"
    by blast
  with len h show ?thesis by blast
qed

lemma testFactory_frame:
  "\<forall>j t. pools (snd (factory_create testFactory j t)) name = pools t name"
  "\<forall>j t. asyncLogRoutes (snd (factory_create testFactory j t)) name = asyncLogRoutes t name"
  by (simp_all add: testFactory_def)

theorem makePool_timeout_locality_witness:
  "fst (makePool secureExternals testFactory poolA emptyProvider)
     = Inr [Some (DestinationRoute AsyncMcClient apLocal1 ''A'' 0 (- 1) 50 False),
            Some (DestinationRoute AsyncMcClient apRemote2 ''A'' 1 (- 1) 50 False)]
   \<and> within_cluster_timeout_ms (opts secureExternals) = 50
   \<and> fst (makePool secureExternals testFactory poolB emptyProvider)
       = Inr [Some (DestinationRoute AsyncMcClient apRemote3 ''B'' 0 (- 1) 200 False)]
   \<and> cross_cluster_timeout_ms (opts secureExternals) = 0
   \<and> get_ptr (pj_json poolB) ''server_timeout'' = Inr (Some (DInt 200))
   \<and> fst (makePool secureExternals testFactory poolC emptyProvider)
       = Inr [Some (DestinationRoute AsyncMcClient apRemote4 ''C'' 0 (- 1) 300 False)]
   \<and> cross_region_timeout_ms (opts secureExternals) = 300
   \<and> (\<exists>tr pd krp.
         [Some (DestinationRoute AsyncMcClient apLocal1 ''A'' 0 (- 1) 50 False),
          Some (DestinationRoute AsyncMcClient apRemote2 ''A'' 1 (- 1) 50 False)] ! 1
           = makeDestinationRoute secureExternals tr pd ''A'' 1 (- 1) 50 krp)
   \<and> (\<exists>tr pd krp.
         [Some (DestinationRoute AsyncMcClient apRemote3 ''B'' 0 (- 1) 200 False)] ! 0
           = makeDestinationRoute secureExternals tr pd ''B'' 0 (- 1) 200 krp)
   \<and> (\<exists>tr pd krp.
         [Some (DestinationRoute AsyncMcClient apRemote4 ''C'' 0 (- 1) 300 False)] ! 0
           = makeDestinationRoute secureExternals tr pd ''C'' 0 (- 1) 300 krp)"
proof -
  let ?hA = "[Some (DestinationRoute AsyncMcClient apLocal1 ''A'' 0 (- 1) 50 False),
              Some (DestinationRoute AsyncMcClient apRemote2 ''A'' 1 (- 1) 50 False)]"
  let ?hB = "[Some (DestinationRoute AsyncMcClient apRemote3 ''B'' 0 (- 1) 200 False)]"
  let ?hC = "[Some (DestinationRoute AsyncMcClient apRemote4 ''C'' 0 (- 1) 300 False)]"
  have eA: "fst (makePool secureExternals testFactory poolA emptyProvider) = Inr ?hA"
    by (simp add: model_defs test_defs)
  have eB: "fst (makePool secureExternals testFactory poolB emptyProvider) = Inr ?hB"
    by (simp add: model_defs test_defs)
  have eC: "fst (makePool secureExternals testFactory poolC emptyProvider) = Inr ?hC"
    by (simp add: model_defs test_defs)
  have rA: "makePool secureExternals testFactory poolA emptyProvider
              = (Inr ?hA, snd (makePool secureExternals testFactory poolA emptyProvider))"
    using eA by (simp add: prod_eq_iff)
  have rB: "makePool secureExternals testFactory poolB emptyProvider
              = (Inr ?hB, snd (makePool secureExternals testFactory poolB emptyProvider))"
    using eB by (simp add: prod_eq_iff)
  have rC: "makePool secureExternals testFactory poolC emptyProvider
              = (Inr ?hC, snd (makePool secureExternals testFactory poolC emptyProvider))"
    using eC by (simp add: prod_eq_iff)
  have u: "pools emptyProvider (pj_name poolA) = None"
          "pools emptyProvider (pj_name poolB) = None"
          "pools emptyProvider (pj_name poolC) = None"
    by (simp_all add: emptyProvider_def)
  have ne: "''east'' \<noteq> []" "''west'' \<noteq> []" "''c1'' \<noteq> []" "''c2'' \<noteq> []"
    by simp_all
  have o: "opts secureExternals = testOptions"
          "makeDestinationRoute secureExternals
             = (\<lambda>tr pd n i psi t krp. Some (DestinationRoute tr (fst (snd pd)) n i psi t krp))"
          "getStatsEnabledPoolIndex secureExternals = (\<lambda>_. - 1)"
          "parseTimeout secureExternals = testParseTimeout"
    by (simp_all add: secureExternals_def)
  have A: "\<exists>tr pd krp. ?hA ! 1 = makeDestinationRoute secureExternals tr pd ''A'' 1 (- 1) 50 krp"
  proof -
    have r: "get_ptr (pj_json poolA) ''region'' = Inr (Some (DString ''east''))"
      and c: "get_ptr (pj_json poolA) ''cluster'' = Inr (Some (DString ''c1''))"
      and s: "get_ptr (pj_json poolA) ''servers''
                = Inr (Some (DArray [DString ''local1:11211'', DString ''remote2:11211'']))"
      and i: "1 < length [DString ''local1:11211'', DString ''remote2:11211'']"
             "[DString ''local1:11211'', DString ''remote2:11211''] ! 1
                = DString ''remote2:11211''"
      by (simp_all add: poolA_def)
    from makePool_timeout_locality [OF rA u(1) testFactory_frame(1) r c ne(1) ne(3) s i]
    show ?thesis
      by (auto simp: o testOptions_def poolA_def)
  qed
  have B: "\<exists>tr pd krp. ?hB ! 0 = makeDestinationRoute secureExternals tr pd ''B'' 0 (- 1) 200 krp"
  proof -
    have r: "get_ptr (pj_json poolB) ''region'' = Inr (Some (DString ''east''))"
      and c: "get_ptr (pj_json poolB) ''cluster'' = Inr (Some (DString ''c2''))"
      and s: "get_ptr (pj_json poolB) ''servers''
                = Inr (Some (DArray [DString ''remote3:11211'']))"
      and i: "0 < length [DString ''remote3:11211'']"
             "[DString ''remote3:11211''] ! 0 = DString ''remote3:11211''"
      by (simp_all add: poolB_def)
    from makePool_timeout_locality [OF rB u(2) testFactory_frame(1) r c ne(1) ne(4) s i]
    show ?thesis
      by (auto simp: o testOptions_def poolB_def)
  qed
  have C: "\<exists>tr pd krp. ?hC ! 0 = makeDestinationRoute secureExternals tr pd ''C'' 0 (- 1) 300 krp"
  proof -
    have r: "get_ptr (pj_json poolC) ''region'' = Inr (Some (DString ''west''))"
      and c: "get_ptr (pj_json poolC) ''cluster'' = Inr (Some (DString ''c1''))"
      and s: "get_ptr (pj_json poolC) ''servers''
                = Inr (Some (DArray [DString ''remote4:11211'']))"
      and i: "0 < length [DString ''remote4:11211'']"
             "[DString ''remote4:11211''] ! 0 = DString ''remote4:11211''"
      by (simp_all add: poolC_def)
    from makePool_timeout_locality [OF rC u(3) testFactory_frame(1) r c ne(2) ne(3) s i]
    show ?thesis
      by (auto simp: o testOptions_def poolC_def)
  qed
  have t: "within_cluster_timeout_ms (opts secureExternals) = 50"
          "cross_cluster_timeout_ms (opts secureExternals) = 0"
          "cross_region_timeout_ms (opts secureExternals) = 300"
          "get_ptr (pj_json poolB) ''server_timeout'' = Inr (Some (DInt 200))"
    by (simp_all add: o testOptions_def poolB_def)
  from eA eB eC t A B C show ?thesis by blast
qed

subsection \<open>Decoration of a pool route\<close>

lemma poolRouteWraps_members:
  assumes "(case map_of (items json) ''rates'' of
              Some r \<Rightarrow> createRateLimitRoute ext route r
            | None \<Rightarrow> Inr route) = Inr route1"
    and "(if disable_shard_split_route (opts ext) then Inr route1
          else case map_of (items json) ''shard_splits'' of
                 Some sp \<Rightarrow> makeShardSplitRoute ext route1 sp
               | None \<Rightarrow> Inr route1) = Inr route2"
    and "(case map_of (items json) ''asynclog'' of
            Some j \<Rightarrow> parseBool ext j ''asynclog''
          | None \<Rightarrow> Inr True) = Inr needAsynclog"
    and "(case map_of (items json) ''name'' of
            Some j \<Rightarrow> parseString ext j ''name''
          | None \<Rightarrow> Inr poolName) = Inr asynclogName"
  shows "poolRouteWraps ext json poolName route = Inr (route2, needAsynclog, asynclogName)"
proof (cases "isObject json")
  case True
  then obtain kvs where "json = DObject kvs" by (cases json) auto
  with assms show ?thesis
    by (auto simp: poolRouteWraps_def bindE_def optField_def split: if_splits)
next
  case False
  then have "items json = []" by (cases json) auto
  with assms False show ?thesis
    by (auto simp: poolRouteWraps_def split: if_splits)
qed

text \<open>
  C5, as the code has it. Over the handle \<open>route\<close> that \<^verbatim>\<open>createHashRoute\<close> returns,
  \<^verbatim>\<open>makePoolRoute\<close> applies in this order: the rate limit when \<^verbatim>\<open>rates\<close> is a member
  (giving \<open>route1\<close>), the shard split when \<^verbatim>\<open>shard_splits\<close> is a member and
  \<^verbatim>\<open>disable_shard_split_route\<close> is off (giving \<open>route2\<close>), and, unless \<^verbatim>\<open>asynclog\<close>
  parses to false, \<^verbatim>\<open>createAsynclogRoute\<close> under the key \<^verbatim>\<open>name\<close>, or the pool's name
  without one. \<^verbatim>\<open>createAsynclogRoute\<close> decorates only when \<^verbatim>\<open>asynclog_disable\<close> is off,
  and records the handle it returns under the key only when the registry has no entry
  for the key yet.
\<close>

theorem makePoolRoute_decoration:
  assumes "poolRoutePool json = Inr jpool"
    and "parsePool ext jpool = Inr poolJson"
    and "makePool ext factory poolJson s = (Inr dests, s1)"
    and "wrapPoolDestinations ext factory dests (pj_name poolJson) json s1
           = (Inr wrapped, s2)"
    and "hashConfig ext json poolJson = Inr jhashWithWeights"
    and "createHashRoute ext jhashWithWeights wrapped (getThreadId factory) = Inr route"
    and "(case map_of (items json) ''rates'' of
              Some r \<Rightarrow> createRateLimitRoute ext route r
            | None \<Rightarrow> Inr route) = Inr route1"
    and "(if disable_shard_split_route (opts ext) then Inr route1
          else case map_of (items json) ''shard_splits'' of
                 Some sp \<Rightarrow> makeShardSplitRoute ext route1 sp
               | None \<Rightarrow> Inr route1) = Inr route2"
    and "(case map_of (items json) ''asynclog'' of
            Some j \<Rightarrow> parseBool ext j ''asynclog''
          | None \<Rightarrow> Inr True) = Inr needAsynclog"
    and "(case map_of (items json) ''name'' of
            Some j \<Rightarrow> parseString ext j ''name''
          | None \<Rightarrow> Inr (pj_name poolJson)) = Inr asynclogName"
  shows "makePoolRoute ext factory json s =
           (if needAsynclog then
              (Inr (if asynclog_disable (opts ext) then route2
                    else makeAsynclogRoute ext route2 asynclogName),
               s2\<lparr>asyncLogRoutes :=
                    (case asyncLogRoutes s2 asynclogName of
                       Some _ \<Rightarrow> asyncLogRoutes s2
                     | None \<Rightarrow>
                         (asyncLogRoutes s2)
                           (asynclogName \<mapsto>
                              (if asynclog_disable (opts ext) then route2
                               else makeAsynclogRoute ext route2 asynclogName)))\<rparr>)
            else (Inr route2, s2))"
proof -
  have "makePoolRoute ext factory json s
          = catchLogic (''PoolRoute '' @ pj_name poolJson @ '': '')
              (decoratePoolRoute ext json (pj_name poolJson) route) s2"
    using assms(1-6)
    by (simp add: makePoolRoute_def bindS_def liftE_def catchLogic_def)
  moreover have "decoratePoolRoute ext json (pj_name poolJson) route s2
          = (if needAsynclog then
              (Inr (if asynclog_disable (opts ext) then route2
                    else makeAsynclogRoute ext route2 asynclogName),
               s2\<lparr>asyncLogRoutes :=
                    (case asyncLogRoutes s2 asynclogName of
                       Some _ \<Rightarrow> asyncLogRoutes s2
                     | None \<Rightarrow>
                         (asyncLogRoutes s2)
                           (asynclogName \<mapsto>
                              (if asynclog_disable (opts ext) then route2
                               else makeAsynclogRoute ext route2 asynclogName)))\<rparr>)
            else (Inr route2, s2))"
    using poolRouteWraps_members [OF assms(7-10)]
    by (simp add: decoratePoolRoute_def bindS_def liftE_def createAsynclogRoute_def
                  emplace_def Let_def)
  ultimately show ?thesis
    by (simp add: catchLogic_def)
qed

lemma makePoolRoute_rates:
  "makePoolRoute (routeExternals False) testFactory poolRouteA_rates emptyProvider
     = (Inr (Some (AsynclogRoute
                     (Some (ShardSplitRoute
                        (Some (RateLimitRoute hashA (DObject [(''sets_rate'', DInt 10)])))
                        (DObject [])))
                     ''A'')),
        afterRatesRoute)"
  by (simp add: model_defs route_defs test_defs)

theorem makePoolRoute_decoration_witness:
  "makePoolRoute (routeExternals False) testFactory poolRouteA_rates emptyProvider
     = (Inr (Some (AsynclogRoute
                     (Some (ShardSplitRoute
                        (Some (RateLimitRoute hashA (DObject [(''sets_rate'', DInt 10)])))
                        (DObject [])))
                     ''A'')),
        afterRatesRoute)
   \<and> asyncLogRoutes afterRatesRoute ''A''
       = Some (Some (AsynclogRoute
                     (Some (ShardSplitRoute
                        (Some (RateLimitRoute hashA (DObject [(''sets_rate'', DInt 10)])))
                        (DObject [])))
                     ''A''))"
proof -
  let ?ext = "routeExternals False"
  let ?rl = "Some (RateLimitRoute hashA (DObject [(''sets_rate'', DInt 10)]))"
  let ?ss = "Some (ShardSplitRoute ?rl (DObject []))"
  have 1: "poolRoutePool poolRouteA_rates = Inr (DString ''A'')"
    by (simp add: route_defs model_defs test_defs)
  have 2: "parsePool ?ext (DString ''A'') = Inr poolA"
    by (simp add: test_defs)
  have 3: "makePool ?ext testFactory poolA emptyProvider = (Inr poolA_handles, afterPoolA)"
    by (simp add: model_defs test_defs)
  have 4: "wrapPoolDestinations ?ext testFactory poolA_handles (pj_name poolA)
             poolRouteA_rates afterPoolA = (Inr poolA_handles, afterPoolA)"
    by (simp add: test_defs)
  have 5: "hashConfig ?ext poolRouteA_rates poolA = Inr (DObject [])"
    by (simp add: route_defs model_defs test_defs)
  have 6: "createHashRoute ?ext (DObject []) poolA_handles (getThreadId testFactory) = Inr hashA"
    by (simp add: test_defs)
  have 7: "(case map_of (items poolRouteA_rates) ''rates'' of
              Some r \<Rightarrow> createRateLimitRoute ?ext hashA r
            | None \<Rightarrow> Inr hashA) = Inr ?rl"
    by (simp add: test_defs)
  have 8: "(if disable_shard_split_route (opts ?ext) then Inr ?rl
          else case map_of (items poolRouteA_rates) ''shard_splits'' of
                 Some sp \<Rightarrow> makeShardSplitRoute ?ext ?rl sp
               | None \<Rightarrow> Inr ?rl) = Inr ?ss"
    by (simp add: test_defs)
  have 9: "(case map_of (items poolRouteA_rates) ''asynclog'' of
            Some j \<Rightarrow> parseBool ?ext j ''asynclog''
          | None \<Rightarrow> Inr True) = Inr True"
    by (simp add: test_defs)
  have 10: "(case map_of (items poolRouteA_rates) ''name'' of
            Some j \<Rightarrow> parseString ?ext j ''name''
          | None \<Rightarrow> Inr (pj_name poolA)) = Inr ''A''"
    by (simp add: test_defs)
  from makePoolRoute_decoration [OF 1 2 3 4 5 6 7 8 9 10]
  show ?thesis
    by (simp add: test_defs)
qed

text \<open>
  C5 as the specification states it fails twice. With \<^verbatim>\<open>asynclog_disable\<close> on and no
  \<^verbatim>\<open>asynclog\<close> member, the pool route is the bare hash handle, not an async-log
  decoration of it. And when the registry already has an entry for the key, here from
  an earlier pool route over the same pool, the handle of the new route is returned
  and is not what the registry holds under the key.
\<close>

theorem makePoolRoute_decoration_counterexample:
  "get_ptr poolRouteA ''asynclog'' = Inr None
   \<and> fst (makePoolRoute (routeExternals True) testFactory poolRouteA emptyProvider) = Inr hashA
   \<and> fst (makePoolRoute (routeExternals True) testFactory poolRouteA emptyProvider)
       \<noteq> Inr (makeAsynclogRoute (routeExternals True) hashA ''A'')
   \<and> fst (makePoolRoute (routeExternals False) testFactory poolRouteA afterRatesRoute)
       = Inr (Some (AsynclogRoute hashA ''A''))
   \<and> asyncLogRoutes
        (snd (makePoolRoute (routeExternals False) testFactory poolRouteA afterRatesRoute)) ''A''
       \<noteq> Some (Some (AsynclogRoute hashA ''A''))"
  by (simp add: model_defs route_defs test_defs)

subsection \<open>The async-log registry\<close>

lemma decoratePoolRoute_registry:
  assumes "decoratePoolRoute ext json poolName route s = (r, s')"
  shows "asyncLogRoutes s' n = asyncLogRoutes s n
         \<or> (asyncLogRoutes s n = None \<and> (\<exists>h. r = Inr h \<and> asyncLogRoutes s' n = Some h))"
proof (cases "poolRouteWraps ext json poolName route")
  case (Inl e)
  with assms show ?thesis
    by (simp add: decoratePoolRoute_def bindS_def liftE_def)
next
  case (Inr t)
  obtain route2 needAsynclog asynclogName where t: "t = (route2, needAsynclog, asynclogName)"
    by (cases t)
  with Inr assms show ?thesis
    by (auto simp: decoratePoolRoute_def bindS_def liftE_def createAsynclogRoute_def
                   emplace_def Let_def split: if_splits option.splits)
qed

lemma localityField_registry:
  "localityField ext name json key label s = (r, s') \<Longrightarrow> asyncLogRoutes s' = asyncLogRoutes s"
  by (auto simp: localityField_def split: sum.splits option.splits if_splits)

lemma createDestinationRoute_registry:
  "createDestinationRoute ext tr ap t ct qc qp nm i psi krp s = (r, s')
     \<Longrightarrow> asyncLogRoutes s' = asyncLogRoutes s"
  by (auto simp: createDestinationRoute_def split: prod.splits)

lemma makeServer_registry:
  assumes "makeServer ext factory name st psi i server s = (r, s')"
    and "\<forall>j t. asyncLogRoutes (snd (factory_create factory j t)) n = asyncLogRoutes t n"
  shows "asyncLogRoutes s' n = asyncLogRoutes s n"
proof (cases "isObject server")
  case True
  with assms(1) have "factory_create factory server s = (r, s')"
    by (simp add: makeServer_def)
  with assms(2) [rule_format, of server s] show ?thesis by simp
next
  case False
  with assms(1) show ?thesis
    by (auto simp: makeServer_def Let_def split: if_splits option.splits prod.splits
             dest!: createDestinationRoute_registry)
qed

lemma makeServers_registry:
  assumes "makeServers ext factory name st psi i servers ds s = (r, s')"
    and "\<forall>j t. asyncLogRoutes (snd (factory_create factory j t)) n = asyncLogRoutes t n"
  shows "asyncLogRoutes s' n = asyncLogRoutes s n"
  using assms(1)
proof (induction servers arbitrary: i ds s)
  case Nil
  then show ?case by simp
next
  case (Cons x rest)
  obtain r1 s1 where step: "makeServer ext factory name st psi i x s = (r1, s1)"
    by (cases "makeServer ext factory name st psi i x s")
  from makeServer_registry [OF step assms(2)]
  have p1: "asyncLogRoutes s1 n = asyncLogRoutes s n" .
  show ?case
  proof (cases r1)
    case (Inl e)
    with Cons.prems step have "s' = s1" by simp
    with p1 show ?thesis by simp
  next
    case (Inr rh)
    with Cons.prems step have
      "makeServers ext factory name st psi (Suc i) rest (ds @ [rh]) s1 = (r, s')" by simp
    from Cons.IH [OF this] p1 show ?thesis by simp
  qed
qed

lemma buildPool_registry:
  assumes "buildPool ext factory jpool region cluster s = (r, s')"
    and "\<forall>j t. asyncLogRoutes (snd (factory_create factory j t)) n = asyncLogRoutes t n"
  shows "asyncLogRoutes s' n = asyncLogRoutes s n"
proof (cases "poolSettings ext (pj_json jpool) region cluster")
  case (Inl a)
  with assms(1) show ?thesis
    by (auto simp: buildPool_def catchLogic_def bindS_def liftE_def)
next
  case st: (Inr st)
  show ?thesis
  proof (cases "checkServers (pj_json jpool)")
    case (Inl a)
    with st assms(1) show ?thesis
      by (auto simp: buildPool_def catchLogic_def bindS_def liftE_def)
  next
    case (Inr servers)
    obtain r1 s1 where ms: "makeServers ext factory (pj_name jpool) st
                 (getStatsEnabledPoolIndex ext (pj_name jpool)) 0 servers [] s = (r1, s1)"
      by (cases "makeServers ext factory (pj_name jpool) st
                 (getStatsEnabledPoolIndex ext (pj_name jpool)) 0 servers [] s")
    from makeServers_registry [OF ms assms(2)]
    have p: "asyncLogRoutes s1 n = asyncLogRoutes s n" .
    from assms(1) st Inr ms have "asyncLogRoutes s' = asyncLogRoutes s1"
      by (auto simp: buildPool_def catchLogic_def bindS_def liftE_def
               split: sum.splits option.splits)
    with p show ?thesis by simp
  qed
qed

lemma makePool_registry:
  assumes "makePool ext factory jpool s = (r, s')"
    and "\<forall>j t. asyncLogRoutes (snd (factory_create factory j t)) n = asyncLogRoutes t n"
  shows "asyncLogRoutes s' n = asyncLogRoutes s n"
proof (cases "pools s (pj_name jpool)")
  case (Some existing)
  with assms(1) show ?thesis by (auto simp: makePool_def)
next
  case None
  with assms(1) have cp: "constructPool ext factory jpool s = (r, s')"
    by (simp add: makePool_def)
  obtain r1 s1 where l1: "localityField ext (pj_name jpool) (pj_json jpool)
                            ''region'' ''pool_region'' s = (r1, s1)"
    by (cases "localityField ext (pj_name jpool) (pj_json jpool) ''region'' ''pool_region'' s")
  show ?thesis
  proof (cases r1)
    case (Inl a)
    with cp l1 have "s' = s1" by (simp add: constructPool_def bindS_def)
    with localityField_registry [OF l1] show ?thesis by simp
  next
    case region: (Inr region)
    obtain r2 s2 where l2: "localityField ext (pj_name jpool) (pj_json jpool)
                              ''cluster'' ''pool_cluster'' s1 = (r2, s2)"
      by (cases "localityField ext (pj_name jpool) (pj_json jpool)
                   ''cluster'' ''pool_cluster'' s1")
    show ?thesis
    proof (cases r2)
      case (Inl a)
      with cp l1 l2 region have "s' = s2" by (simp add: constructPool_def bindS_def)
      with localityField_registry [OF l1] localityField_registry [OF l2]
      show ?thesis by simp
    next
      case (Inr cluster)
      with cp l1 l2 region have "buildPool ext factory jpool region cluster s2 = (r, s')"
        by (simp add: constructPool_def bindS_def)
      from buildPool_registry [OF this assms(2)]
        localityField_registry [OF l1] localityField_registry [OF l2]
      show ?thesis by simp
    qed
  qed
qed

lemma makePoolRoute_registry:
  assumes "makePoolRoute ext factory json s = (r, s')"
    and "\<forall>j t. asyncLogRoutes (snd (factory_create factory j t)) n = asyncLogRoutes t n"
    and "\<forall>ds nm j t. asyncLogRoutes (snd (wrapPoolDestinations ext factory ds nm j t)) n
                        = asyncLogRoutes t n"
  shows "asyncLogRoutes s' n = asyncLogRoutes s n
         \<or> (asyncLogRoutes s n = None \<and> (\<exists>h. r = Inr h \<and> asyncLogRoutes s' n = Some h))"
proof (cases "poolRoutePool json")
  case (Inl e)
  with assms(1) show ?thesis by (simp add: makePoolRoute_def bindS_def liftE_def)
next
  case jp: (Inr jpool)
  show ?thesis
  proof (cases "parsePool ext jpool")
    case (Inl e)
    with jp assms(1) show ?thesis by (simp add: makePoolRoute_def bindS_def liftE_def)
  next
    case pj: (Inr poolJson)
    obtain r1 s1 where mp: "makePool ext factory poolJson s = (r1, s1)"
      by (cases "makePool ext factory poolJson s")
    from makePool_registry [OF mp assms(2)]
    have p1: "asyncLogRoutes s1 n = asyncLogRoutes s n" .
    show ?thesis
    proof (cases r1)
      case (Inl e)
      with jp pj mp assms(1) have "s' = s1"
        by (simp add: makePoolRoute_def bindS_def liftE_def)
      with p1 show ?thesis by simp
    next
      case ds: (Inr ds)
      obtain r2 s2 where wr: "wrapPoolDestinations ext factory ds (pj_name poolJson) json s1
                                = (r2, s2)"
        by (cases "wrapPoolDestinations ext factory ds (pj_name poolJson) json s1")
      from assms(3) [rule_format, of ds "pj_name poolJson" json s1] wr
      have p2: "asyncLogRoutes s2 n = asyncLogRoutes s1 n" by simp
      show ?thesis
      proof (cases r2)
        case (Inl e)
        with jp pj mp ds wr assms(1) have "s' = s2"
          by (auto simp: makePoolRoute_def bindS_def liftE_def catchLogic_def)
        with p1 p2 show ?thesis by simp
      next
        case wrapped: (Inr wrapped)
        show ?thesis
        proof (cases "hashConfig ext json poolJson")
          case (Inl e)
          with jp pj mp ds wr wrapped assms(1) have "s' = s2"
            by (auto simp: makePoolRoute_def bindS_def liftE_def catchLogic_def)
          with p1 p2 show ?thesis by simp
        next
          case jh: (Inr jh)
          show ?thesis
          proof (cases "createHashRoute ext jh wrapped (getThreadId factory)")
            case (Inl e)
            with jp pj mp ds wr wrapped jh assms(1) have "s' = s2"
              by (auto simp: makePoolRoute_def bindS_def liftE_def catchLogic_def)
            with p1 p2 show ?thesis by simp
          next
            case (Inr route)
            obtain r3 s3 where dec:
              "decoratePoolRoute ext json (pj_name poolJson) route s2 = (r3, s3)"
              by (cases "decoratePoolRoute ext json (pj_name poolJson) route s2")
            from jp pj mp ds wr wrapped jh Inr dec assms(1)
            have res: "s' = s3" "(\<exists>h. r3 = Inr h) \<longrightarrow> r = r3"
              by (auto simp: makePoolRoute_def bindS_def liftE_def catchLogic_def
                       split: sum.splits)
            from decoratePoolRoute_registry [OF dec, of n] res p1 p2
            show ?thesis by auto
          qed
        qed
      qed
    qed
  qed
qed

text \<open>
  C6, as the code has it. \<^verbatim>\<open>asyncLogRoutes_.emplace\<close> never replaces an entry, so the
  first writer wins: when \<^verbatim>\<open>makePoolRoute\<close> records its handle \<open>h1\<close> under a name
  that had no entry, the registry holds \<open>h1\<close> under that name also after any later
  \<^verbatim>\<open>makePoolRoute\<close>, whatever that one builds and would record. The collaborators that
  receive the state (the factory and \<^verbatim>\<open>wrapPoolDestinations\<close>) are assumed to leave the
  registry entry of this name alone.
\<close>

theorem asyncLogRoutes_first_writer_wins:
  assumes "makePoolRoute ext factory json1 s = (Inr h1, s1)"
    and "asyncLogRoutes s n = None"
    and "asyncLogRoutes s1 n \<noteq> None"
    and "makePoolRoute ext factory json2 s1 = (r2, s2)"
    and "\<forall>j t. asyncLogRoutes (snd (factory_create factory j t)) n = asyncLogRoutes t n"
    and "\<forall>ds nm j t. asyncLogRoutes (snd (wrapPoolDestinations ext factory ds nm j t)) n
                        = asyncLogRoutes t n"
  shows "asyncLogRoutes s1 n = Some h1 \<and> asyncLogRoutes s2 n = Some h1"
proof -
  from makePoolRoute_registry [OF assms(1,5,6)] assms(2,3)
  have first: "asyncLogRoutes s1 n = Some h1" by auto
  from makePoolRoute_registry [OF assms(4,5,6)] first
  have "asyncLogRoutes s2 n = Some h1" by auto
  with first show ?thesis by simp
qed

theorem asyncLogRoutes_first_writer_wins_witness:
  "makePoolRoute (routeExternals False) testFactory (namedRoute ''A'') emptyProvider
     = (Inr (Some (AsynclogRoute hashA ''log'')), afterNamedA)
   \<and> asyncLogRoutes emptyProvider ''log'' = None
   \<and> asyncLogRoutes afterNamedA ''log'' = Some (Some (AsynclogRoute hashA ''log''))
   \<and> pools afterNamedA ''B'' = None
   \<and> fst (makePoolRoute (routeExternals False) testFactory (namedRoute ''B'') afterNamedA)
       = Inr (Some (AsynclogRoute hashB ''log''))
   \<and> pools (snd (makePoolRoute (routeExternals False) testFactory (namedRoute ''B'')
                    afterNamedA)) ''B''
       = Some [Some (DestinationRoute AsyncMcClient apRemote3 ''B'' 0 (- 1) 200 False)]
   \<and> asyncLogRoutes
        (snd (makePoolRoute (routeExternals False) testFactory (namedRoute ''B'') afterNamedA))
        ''log''
       = Some (Some (AsynclogRoute hashA ''log''))"
proof -
  have 1: "makePoolRoute (routeExternals False) testFactory (namedRoute ''A'') emptyProvider
             = (Inr (Some (AsynclogRoute hashA ''log'')), afterNamedA)"
    by (simp add: model_defs route_defs test_defs)
  have 2: "asyncLogRoutes emptyProvider ''log'' = None"
    by (simp add: test_defs)
  have 3: "asyncLogRoutes afterNamedA ''log'' \<noteq> None"
    by (simp add: afterNamedA_def)
  have 4: "makePoolRoute (routeExternals False) testFactory (namedRoute ''B'') afterNamedA
             = (fst (makePoolRoute (routeExternals False) testFactory (namedRoute ''B'')
                       afterNamedA),
                snd (makePoolRoute (routeExternals False) testFactory (namedRoute ''B'')
                       afterNamedA))"
    by simp
  have 5: "\<forall>ds nm j t. asyncLogRoutes
                          (snd (wrapPoolDestinations (routeExternals False) testFactory
                                  ds nm j t)) ''log''
                        = asyncLogRoutes t ''log''"
    by (simp add: routeExternals_def)
  have 6: "fst (makePoolRoute (routeExternals False) testFactory (namedRoute ''B'') afterNamedA)
             = Inr (Some (AsynclogRoute hashB ''log''))"
    by (simp add: model_defs route_defs test_defs)
  have 7: "pools (snd (makePoolRoute (routeExternals False) testFactory (namedRoute ''B'')
                    afterNamedA)) ''B''
             = Some [Some (DestinationRoute AsyncMcClient apRemote3 ''B'' 0 (- 1) 200 False)]"
    by (simp add: model_defs route_defs test_defs)
  have 8: "pools afterNamedA ''B'' = None"
    by (simp add: test_defs)
  from asyncLogRoutes_first_writer_wins [OF 1 2 3 4 testFactory_frame(2) 5] 1 2 6 7 8
  show ?thesis by simp
qed

text \<open>
  C6 as the specification states it, the later insertion wins, fails: two pool routes
  with the log name \<^verbatim>\<open>log\<close>, the first over pool \<^verbatim>\<open>A\<close> and the second over pool \<^verbatim>\<open>B\<close>.
  Both return a handle recorded under \<^verbatim>\<open>log\<close>; afterwards the registry holds the
  handle of the first.
\<close>

theorem asyncLogRoutes_last_writer_counterexample:
  "fst (makePoolRoute (routeExternals False) testFactory (namedRoute ''A'') emptyProvider)
     = Inr (Some (AsynclogRoute hashA ''log''))
   \<and> fst (makePoolRoute (routeExternals False) testFactory (namedRoute ''B'')
            (snd (makePoolRoute (routeExternals False) testFactory (namedRoute ''A'')
                    emptyProvider)))
       = Inr (Some (AsynclogRoute hashB ''log''))
   \<and> asyncLogRoutes
        (snd (makePoolRoute (routeExternals False) testFactory (namedRoute ''B'')
                (snd (makePoolRoute (routeExternals False) testFactory (namedRoute ''A'')
                        emptyProvider)))) ''log''
       = Some (Some (AsynclogRoute hashA ''log''))
   \<and> Some (AsynclogRoute hashA ''log'') \<noteq> Some (AsynclogRoute hashB ''log'')"
  by (simp add: model_defs route_defs test_defs)

subsection \<open>The checked route map\<close>

lemma map_of_keyed:
  "map_of (map (\<lambda>(k, v). (k, g k v)) xs) key = map_option (g key) (map_of xs key)"
  by (induction xs) auto

lemma map_of_buildCheckedRouteMap:
  "map_of (buildCheckedRouteMap ext) rhName
     = map_option (checkedFactory rhName) (map_of (buildRouteMap ext) rhName)"
  by (simp add: buildCheckedRouteMap_def map_of_keyed)

text \<open>
  C7, as the code has it. For a type that \<^verbatim>\<open>create\<close> does not handle itself (\<^verbatim>\<open>Pool\<close>,
  \<^verbatim>\<open>ShadowRoute\<close>, \<^verbatim>\<open>SaltedFailoverRoute\<close>, \<^verbatim>\<open>FailoverRoute\<close>, \<^verbatim>\<open>PoolRoute\<close>) and that
  is registered in the route map: when the registered factory returns \<^verbatim>\<open>nullptr\<close>,
  \<^verbatim>\<open>create\<close> throws \<^verbatim>\<open>make<type> returned nullptr\<close>, a message that contains the type
  name, and returns no handle.
\<close>

theorem create_checked_nullptr:
  assumes "map_of (buildRouteMap ext) type = Some factoryFunc"
    and "type \<notin> {''Pool'', ''ShadowRoute'', ''SaltedFailoverRoute'', ''FailoverRoute'',
                   ''PoolRoute''}"
    and "factoryFunc factory json s = (Inr None, s')"
  shows "create ext factory type json s
           = (Inl (LogicError (''make'' @ type @ '' returned nullptr'')), s')
         \<and> sublist type (''make'' @ type @ '' returned nullptr'')"
proof
  from assms(1) have
    "map_of (buildCheckedRouteMap ext) type = Some (checkedFactory type factoryFunc)"
    by (simp add: map_of_buildCheckedRouteMap)
  with assms(2,3) show "create ext factory type json s
           = (Inl (LogicError (''make'' @ type @ '' returned nullptr'')), s')"
    by (simp add: create_def single_def checkedFactory_def bindS_def liftE_def)
  show "sublist type (''make'' @ type @ '' returned nullptr'')"
    by (rule sublist_appendI)
qed

theorem create_checked_nullptr_witness:
  "map_of (buildRouteMap nullExternals) ''Foo'' = Some nullFactory
   \<and> nullFactory testFactory (DObject []) emptyProvider = (Inr None, emptyProvider)
   \<and> create nullExternals testFactory ''Foo'' (DObject []) emptyProvider
       = (Inl (LogicError ''makeFoo returned nullptr''), emptyProvider)
   \<and> sublist ''Foo'' ''makeFoo returned nullptr''"
proof -
  have 1: "map_of (buildRouteMap nullExternals) ''Foo'' = Some nullFactory"
    by (simp add: nullExternals_def)
  have 2: "''Foo'' \<notin> {''Pool'', ''ShadowRoute'', ''SaltedFailoverRoute'', ''FailoverRoute'',
                        ''PoolRoute''}"
    by simp
  have 3: "nullFactory testFactory (DObject []) emptyProvider = (Inr None, emptyProvider)"
    by (simp add: nullFactory_def)
  from create_checked_nullptr [OF 1 2 3] 1 3 show ?thesis by simp
qed

text \<open>
  C7 as the specification states it, for every registered type, fails for the types
  that \<^verbatim>\<open>create\<close> handles before it looks into the route map: a route map that
  registers \<^verbatim>\<open>FailoverRoute\<close> with a factory returning \<^verbatim>\<open>nullptr\<close> is never asked, and
  \<^verbatim>\<open>create\<close> returns what the failover builder returns.
\<close>

theorem create_checked_nullptr_counterexample:
  "map_of (buildRouteMap nullExternals) ''FailoverRoute'' = Some nullFactory
   \<and> nullFactory testFactory (DObject []) emptyProvider = (Inr None, emptyProvider)
   \<and> create nullExternals testFactory ''FailoverRoute'' (DObject []) emptyProvider
       = (Inr [Some (FailoverRoute (DObject []))], emptyProvider)"
  by (simp add: route_defs model_defs test_defs)

subsection \<open>The \<^verbatim>\<open>pool\<close> member of a \<^verbatim>\<open>SaltedFailoverRoute\<close>\<close>

lemma saltedFailoverJson_cases:
  "saltedFailoverJson json =
     (case get_ptr json ''pool'' of
        Inl e \<Rightarrow> Inl e
      | Inr None \<Rightarrow> Inl NullDeref
      | Inr (Some p) \<Rightarrow>
          if isString p \<or> isObject p
          then Inr (dinsert ''children''
                      (DArray [case map_of (items json) ''hash'' of
                                 Some h \<Rightarrow>
                                   dinsert ''hash'' h
                                     (DObject [(''type'', DString ''PoolRoute''),
                                               (''pool'', if isString p
                                                          then DString (stringPiece p) else p)])
                               | None \<Rightarrow>
                                   DObject [(''type'', DString ''PoolRoute''),
                                            (''pool'', if isString p
                                                       then DString (stringPiece p) else p)],
                               if isString p then DString (''Pool|'' @ stringPiece p) else p])
                      (derase ''children'' json))
          else Inl (LogicError ''pool needs to be either a string or an object''))"
  by (cases json)
     (auto simp: saltedFailoverJson_def bindE_def split: option.splits)

text \<open>
  C10. The rewriting of a \<^verbatim>\<open>SaltedFailoverRoute\<close> throws \<^verbatim>\<open>pool needs to be either a
  string or an object\<close> exactly when \<^verbatim>\<open>pool\<close> is a member that is neither a string nor
  an object, and it dereferences a null pointer exactly when the object has no
  \<^verbatim>\<open>pool\<close> member: \<^verbatim>\<open>create\<close> then has no defined result and reports no configuration
  error, where \<^verbatim>\<open>makePoolRoute\<close> on the same object throws \<^verbatim>\<open>PoolRoute: pool not
  found\<close>.
\<close>

theorem saltedFailover_pool_precondition:
  "(saltedFailoverJson json = Inl (LogicError ''pool needs to be either a string or an object'')
      \<longleftrightarrow> (\<exists>p. get_ptr json ''pool'' = Inr (Some p) \<and> \<not> isString p \<and> \<not> isObject p))
   \<and> (saltedFailoverJson json = Inl NullDeref \<longleftrightarrow> get_ptr json ''pool'' = Inr None)
   \<and> (get_ptr json ''pool'' = Inr None \<longrightarrow>
        create ext factory ''SaltedFailoverRoute'' json s = (Inl NullDeref, s)
        \<and> makePoolRoute ext factory json s
            = (Inl (LogicError ''PoolRoute: pool not found''), s))"
proof (intro conjI impI)
  show "saltedFailoverJson json
          = Inl (LogicError ''pool needs to be either a string or an object'')
        \<longleftrightarrow> (\<exists>p. get_ptr json ''pool'' = Inr (Some p) \<and> \<not> isString p \<and> \<not> isObject p)"
    by (cases json) (auto simp: saltedFailoverJson_cases split: option.splits)
  show "saltedFailoverJson json = Inl NullDeref \<longleftrightarrow> get_ptr json ''pool'' = Inr None"
    by (cases json) (auto simp: saltedFailoverJson_cases split: option.splits)
next
  assume absent: "get_ptr json ''pool'' = Inr None"
  then show "create ext factory ''SaltedFailoverRoute'' json s = (Inl NullDeref, s)"
    by (simp add: create_def saltedFailoverJson_cases bindS_def liftE_def)
  from absent have "isObject json" by (cases json) auto
  with absent show "makePoolRoute ext factory json s
            = (Inl (LogicError ''PoolRoute: pool not found''), s)"
    by (simp add: makePoolRoute_def poolRoutePool_def bindS_def liftE_def bindE_def
                  checkLogic_def)
qed

theorem saltedFailover_pool_precondition_witness:
  "get_ptr (DObject [(''pool'', DInt 4)]) ''pool'' = Inr (Some (DInt 4))
   \<and> saltedFailoverJson (DObject [(''pool'', DInt 4)])
       = Inl (LogicError ''pool needs to be either a string or an object'')
   \<and> get_ptr (DObject [(''hash'', DString ''Ch3'')]) ''pool'' = Inr None
   \<and> saltedFailoverJson (DObject [(''hash'', DString ''Ch3'')]) = Inl NullDeref
   \<and> create secureExternals testFactory ''SaltedFailoverRoute''
        (DObject [(''hash'', DString ''Ch3'')]) emptyProvider
       = (Inl NullDeref, emptyProvider)
   \<and> makePoolRoute secureExternals testFactory (DObject [(''hash'', DString ''Ch3'')])
        emptyProvider
       = (Inl (LogicError ''PoolRoute: pool not found''), emptyProvider)"
proof -
  have 1: "\<exists>p. get_ptr (DObject [(''pool'', DInt 4)]) ''pool'' = Inr (Some p)
                \<and> \<not> isString p \<and> \<not> isObject p"
    by simp
  have 2: "get_ptr (DObject [(''hash'', DString ''Ch3'')]) ''pool'' = Inr None"
    by simp
  from saltedFailover_pool_precondition
         [of "DObject [(''pool'', DInt 4)]" secureExternals testFactory emptyProvider] 1
  have a: "saltedFailoverJson (DObject [(''pool'', DInt 4)])
             = Inl (LogicError ''pool needs to be either a string or an object'')"
    by blast
  from saltedFailover_pool_precondition
         [of "DObject [(''hash'', DString ''Ch3'')]" secureExternals testFactory emptyProvider] 2
  have b: "saltedFailoverJson (DObject [(''hash'', DString ''Ch3'')]) = Inl NullDeref"
          "create secureExternals testFactory ''SaltedFailoverRoute''
             (DObject [(''hash'', DString ''Ch3'')]) emptyProvider
             = (Inl NullDeref, emptyProvider)"
          "makePoolRoute secureExternals testFactory (DObject [(''hash'', DString ''Ch3'')])
             emptyProvider
             = (Inl (LogicError ''PoolRoute: pool not found''), emptyProvider)"
    by blast+
  from a b 2 show ?thesis by simp
qed

end
